theory Spec2Isabelle
  imports Main "HOL-Library.Word"
begin

unbundle bit_operations_syntax

section \<open>SHA-256 with hex output\<close>

text \<open>
  Both upload routes compute
  \<^verbatim>\<open>crypto.createHash('sha256').update(bytes).digest('hex')\<close>.
  The hash is Node's; it is written out here after FIPS 180-4 (constants in decimal), so
  that the digest the routes store and compare is a concrete, executable function.
\<close>

type_synonym byte = "8 word"
type_synonym w32 = "32 word"
type_synonym hstate = "w32 \<times> w32 \<times> w32 \<times> w32 \<times> w32 \<times> w32 \<times> w32 \<times> w32"

definition K256 :: "w32 list" where
  "K256 = [
    1116352408, 1899447441, 3049323471, 3921009573, 961987163, 1508970993,
    2453635748, 2870763221, 3624381080, 310598401, 607225278, 1426881987,
    1925078388, 2162078206, 2614888103, 3248222580, 3835390401, 4022224774,
    264347078, 604807628, 770255983, 1249150122, 1555081692, 1996064986,
    2554220882, 2821834349, 2952996808, 3210313671, 3336571891, 3584528711,
    113926993, 338241895, 666307205, 773529912, 1294757372, 1396182291,
    1695183700, 1986661051, 2177026350, 2456956037, 2730485921, 2820302411,
    3259730800, 3345764771, 3516065817, 3600352804, 4094571909, 275423344,
    430227734, 506948616, 659060556, 883997877, 958139571, 1322822218,
    1537002063, 1747873779, 1955562222, 2024104815, 2227730452, 2361852424,
    2428436474, 2756734187, 3204031479, 3329325298]"

definition H256 :: hstate where
  "H256 = (1779033703, 3144134277, 1013904242, 2773480762,
           1359893119, 2600822924, 528734635, 1541459225)"

definition Ch :: "w32 \<Rightarrow> w32 \<Rightarrow> w32 \<Rightarrow> w32" where
  "Ch x y z = (x AND y) XOR (NOT x AND z)"

definition Maj :: "w32 \<Rightarrow> w32 \<Rightarrow> w32 \<Rightarrow> w32" where
  "Maj x y z = (x AND y) XOR (x AND z) XOR (y AND z)"

definition Sigma0 :: "w32 \<Rightarrow> w32" where
  "Sigma0 x = word_rotr 2 x XOR word_rotr 13 x XOR word_rotr 22 x"

definition Sigma1 :: "w32 \<Rightarrow> w32" where
  "Sigma1 x = word_rotr 6 x XOR word_rotr 11 x XOR word_rotr 25 x"

definition sigma0 :: "w32 \<Rightarrow> w32" where
  "sigma0 x = word_rotr 7 x XOR word_rotr 18 x XOR drop_bit 3 x"

definition sigma1 :: "w32 \<Rightarrow> w32" where
  "sigma1 x = word_rotr 17 x XOR word_rotr 19 x XOR drop_bit 10 x"

text \<open>Padding: the byte 0x80, zero bytes up to 56 modulo 64, the bit length in 64 bits,
  big-endian.\<close>

definition pad :: "byte list \<Rightarrow> byte list" where
  "pad bs =
     (let bits = (word_of_nat (8 * length bs) :: 64 word)
      in bs @ [128] @ replicate ((119 - length bs mod 64) mod 64) 0
            @ map (\<lambda>i. ucast (drop_bit (8 * (7 - i)) bits)) [0..<8])"

definition be32 :: "byte list \<Rightarrow> w32" where
  "be32 bs = foldl (\<lambda>acc b. push_bit 8 acc OR ucast b) 0 bs"

definition blocks :: "byte list \<Rightarrow> w32 list list" where
  "blocks bs =
     map (\<lambda>i. map (\<lambda>j. be32 (take 4 (drop (64 * i + 4 * j) bs))) [0..<16])
         [0..<length bs div 64]"

fun schedule :: "nat \<Rightarrow> w32 list \<Rightarrow> w32 list" where
  "schedule 0 W = W"
| "schedule (Suc n) W =
     schedule n
       (W @ [sigma1 (W ! (length W - 2)) + W ! (length W - 7)
              + sigma0 (W ! (length W - 15)) + W ! (length W - 16)])"

definition sha_round :: "hstate \<Rightarrow> w32 \<times> w32 \<Rightarrow> hstate" where
  "sha_round = (\<lambda>(a, b, c, d, e, f, g, h) (k, w).
     let T1 = h + Sigma1 e + Ch e f g + k + w;
         T2 = Sigma0 a + Maj a b c
     in (T1 + T2, a, b, c, d + T1, e, f, g))"

definition add_state :: "hstate \<Rightarrow> hstate \<Rightarrow> hstate" where
  "add_state = (\<lambda>(a, b, c, d, e, f, g, h) (a', b', c', d', e', f', g', h').
     (a + a', b + b', c + c', d + d', e + e', f + f', g + g', h + h'))"

definition compress :: "hstate \<Rightarrow> w32 list \<Rightarrow> hstate" where
  "compress H M = add_state H (foldl sha_round H (zip K256 (schedule 48 M)))"

definition sha256 :: "byte list \<Rightarrow> hstate" where
  "sha256 bs = foldl compress H256 (blocks (pad bs))"

definition hexchar :: "nat \<Rightarrow> char" where
  "hexchar n = ''0123456789abcdef'' ! (n mod 16)"

definition hex32 :: "w32 \<Rightarrow> string" where
  "hex32 w = map (\<lambda>i. hexchar (unat (drop_bit (4 * (7 - i)) w AND 15))) [0..<8]"

definition hex_of_state :: "hstate \<Rightarrow> string" where
  "hex_of_state = (\<lambda>(a, b, c, d, e, f, g, h). concat (map hex32 [a, b, c, d, e, f, g, h]))"

definition sha256_hex :: "byte list \<Rightarrow> string" where
  "sha256_hex bs = hex_of_state (sha256 bs)"


section \<open>The mock blockchain service (backend/src/services/blockchain.ts)\<close>

record SalesRecord =
  storeId :: string
  date :: string
  hash :: string
  timestamp :: nat
  submittedBy :: string

text \<open>\<^verbatim>\<open>interface BlockchainResponse\<close>; an optional field that is not set is \<open>None\<close>.\<close>

record BlockchainResponse =
  success :: bool
  message :: string
  data :: "SalesRecord option"
  hasRole_res :: "bool option"
  role_res :: "string option"

definition response :: "bool \<Rightarrow> string \<Rightarrow> BlockchainResponse" where
  "response ok msg =
     \<lparr>success = ok, message = msg, data = None, hasRole_res = None, role_res = None\<rparr>"

record BlockchainService =
  mockUsers :: "string \<rightharpoonup> string"
  mockSalesRecords :: "string \<rightharpoonup> SalesRecord"

text \<open>The exported singleton \<^verbatim>\<open>blockchainService = new BlockchainService()\<close>.\<close>

definition blockchainService :: BlockchainService where
  "blockchainService =
     \<lparr>mockUsers =
        [''lsk24cd35u4jdq8szo4pnsqe5dsxwrnazyqqqg5eu'' \<mapsto> ''admin'',
         ''lsk2a8h3k9j4m5n6p7q8r9s0t1u2v3w4x5y6z7a8b'' \<mapsto> ''auditor'',
         ''lsk3b9i4k0j5m6n7p8q9r0s1t2u3v4w5x6y7z8a9c'' \<mapsto> ''cashier''],
      mockSalesRecords = Map.empty\<rparr>"

text \<open>The template literal \<^verbatim>\<open>`${storeId}:${date}`\<close>.\<close>

definition record_key :: "string \<Rightarrow> string \<Rightarrow> string" where
  "record_key store day = store @ '':'' @ day"

text \<open>Each method takes the service object first and returns it updated; \<open>now\<close> is the
  value of \<^verbatim>\<open>Date.now()\<close>. The parameters \<^verbatim>\<open>storeId\<close>, \<^verbatim>\<open>date\<close> and \<^verbatim>\<open>hash\<close> are
  written \<open>store\<close>, \<open>day\<close> and \<open>digest\<close>: the record fields keep the code's names.\<close>

definition submitSalesHash ::
  "BlockchainService \<Rightarrow> string \<Rightarrow> string \<Rightarrow> string \<Rightarrow> string \<Rightarrow> nat
     \<Rightarrow> BlockchainResponse \<times> BlockchainService" where
  "submitSalesHash svc store day digest senderAddress now =
     (if mockUsers svc senderAddress \<noteq> Some ''cashier''
      then (response False ''Unauthorized: Cashier role required'', svc)
      else
        let key = record_key store day in
        if mockSalesRecords svc key \<noteq> None
        then (response False ''Sales record already exists for this date'', svc)
        else
          (response True ''Sales hash submitted successfully'',
           svc\<lparr>mockSalesRecords := (mockSalesRecords svc)(key \<mapsto>
             \<lparr>storeId = store, date = day, hash = digest, timestamp = now,
              submittedBy = senderAddress\<rparr>)\<rparr>))"

definition getSalesHash :: "BlockchainService \<Rightarrow> string \<Rightarrow> string \<Rightarrow> BlockchainResponse" where
  "getSalesHash svc store day =
     (let key = record_key store day in
      case mockSalesRecords svc key of
        None \<Rightarrow> response False ''No sales record found''
      | Some record \<Rightarrow> (response True ''Record found'')\<lparr>data := Some record\<rparr>)"

definition addUser ::
  "BlockchainService \<Rightarrow> string \<Rightarrow> string \<Rightarrow> string \<Rightarrow> BlockchainResponse \<times> BlockchainService" where
  "addUser svc userAddress role senderAddress =
     (if mockUsers svc senderAddress \<noteq> Some ''admin''
      then (response False ''Unauthorized: Admin role required'', svc)
      else
        (response True (''User added to '' @ role @ '' role successfully''),
         svc\<lparr>mockUsers := (mockUsers svc)(userAddress \<mapsto> role)\<rparr>))"

definition removeUser ::
  "BlockchainService \<Rightarrow> string \<Rightarrow> string \<Rightarrow> BlockchainResponse \<times> BlockchainService" where
  "removeUser svc userAddress senderAddress =
     (if mockUsers svc senderAddress \<noteq> Some ''admin''
      then (response False ''Unauthorized: Admin role required'', svc)
      else if mockUsers svc userAddress \<noteq> None
      then (response True ''User removed successfully'',
            svc\<lparr>mockUsers := (mockUsers svc)(userAddress := None)\<rparr>)
      else (response False ''User not found'', svc))"

definition hasRole :: "BlockchainService \<Rightarrow> string \<Rightarrow> string \<Rightarrow> BlockchainResponse" where
  "hasRole svc userAddress role =
     (let userRole = mockUsers svc userAddress in
      \<lparr>success = True, message = ''Role check completed'', data = None,
       hasRole_res = Some (userRole = Some role), role_res = userRole\<rparr>)"

text \<open>Calls of the state-changing methods, to speak about sequences of them.\<close>

datatype service_call =
    SubmitSalesHash string string string string nat
  | AddUser string string string
  | RemoveUser string string

fun service_step :: "BlockchainService \<Rightarrow> service_call \<Rightarrow> BlockchainService" where
  "service_step svc (SubmitSalesHash store day digest sender now) =
     snd (submitSalesHash svc store day digest sender now)"
| "service_step svc (AddUser userAddress role sender) = snd (addUser svc userAddress role sender)"
| "service_step svc (RemoveUser userAddress sender) = snd (removeUser svc userAddress sender)"

definition service_run :: "BlockchainService \<Rightarrow> service_call list \<Rightarrow> BlockchainService" where
  "service_run = foldl service_step"


section \<open>The Lisk module (contracts/src/securepos-module.ts)\<close>

text \<open>The module's methods have the suffix \<open>_mod\<close>; their results \<^verbatim>\<open>{ success, message }\<close>
  (and \<^verbatim>\<open>data\<close> for getSalesHash) are written as a \<open>BlockchainResponse\<close>. The JavaScript
  \<^verbatim>\<open>Set\<close> of admin addresses is a set, its \<^verbatim>\<open>size\<close> the cardinality.\<close>

record UserRole =
  address :: string
  role :: string
  addedBy :: string
  timestamp_ur :: nat

record SecurePOSModule =
  salesRecords :: "string \<rightharpoonup> SalesRecord"
  userRoles :: "string \<rightharpoonup> UserRole"
  adminAddresses :: "string set"

text \<open>The field initialisers of the class.\<close>

definition new_SecurePOSModule :: SecurePOSModule where
  "new_SecurePOSModule = \<lparr>salesRecords = Map.empty, userRoles = Map.empty, adminAddresses = {}\<rparr>"

text \<open>\<^verbatim>\<open>init\<close>: \<open>accounts\<close> holds the addresses of \<^verbatim>\<open>args.genesisConfig.accounts\<close>; the
  deployer is the first one, when there is one and it is not the empty string.\<close>

definition init :: "SecurePOSModule \<Rightarrow> string list \<Rightarrow> nat \<Rightarrow> SecurePOSModule" where
  "init m accounts now =
     (case accounts of
        [] \<Rightarrow> m
      | deployerAddress # _ \<Rightarrow>
          if deployerAddress = [] then m
          else m\<lparr>adminAddresses := insert deployerAddress (adminAddresses m),
                 userRoles := (userRoles m)(deployerAddress \<mapsto>
                   \<lparr>address = deployerAddress, role = ''admin'', addedBy = deployerAddress,
                    timestamp_ur = now\<rparr>)\<rparr>)"

definition hasRoleInternal :: "SecurePOSModule \<Rightarrow> string \<Rightarrow> string \<Rightarrow> bool" where
  "hasRoleInternal m addr r =
     (case userRoles m addr of None \<Rightarrow> False | Some userRole \<Rightarrow> role userRole = r)"

definition submitSalesHash_mod ::
  "SecurePOSModule \<Rightarrow> string \<Rightarrow> string \<Rightarrow> string \<Rightarrow> string \<Rightarrow> nat
     \<Rightarrow> BlockchainResponse \<times> SecurePOSModule" where
  "submitSalesHash_mod m store day digest senderAddress now =
     (if \<not> hasRoleInternal m senderAddress ''cashier''
      then (response False ''Unauthorized: Cashier role required'', m)
      else if store = [] \<or> day = [] \<or> digest = []
      then (response False ''Missing required parameters'', m)
      else
        let key = record_key store day in
        if salesRecords m key \<noteq> None
        then (response False ''Sales record for this store and date already exists'', m)
        else
          (response True ''Sales hash submitted successfully'',
           m\<lparr>salesRecords := (salesRecords m)(key \<mapsto>
             \<lparr>storeId = store, date = day, hash = digest, timestamp = now,
              submittedBy = senderAddress\<rparr>)\<rparr>))"

definition getSalesHash_mod :: "SecurePOSModule \<Rightarrow> string \<Rightarrow> string \<Rightarrow> BlockchainResponse" where
  "getSalesHash_mod m store day =
     (if store = [] \<or> day = [] then response False ''Missing required parameters''
      else
        let key = record_key store day in
        case salesRecords m key of
          None \<Rightarrow> response False ''No sales record found for the specified store and date''
        | Some record \<Rightarrow>
            (response True ''Sales record retrieved successfully'')\<lparr>data := Some record\<rparr>)"

definition addUser_mod ::
  "SecurePOSModule \<Rightarrow> string \<Rightarrow> string \<Rightarrow> string \<Rightarrow> nat
     \<Rightarrow> BlockchainResponse \<times> SecurePOSModule" where
  "addUser_mod m userAddress r senderAddress now =
     (if \<not> hasRoleInternal m senderAddress ''admin''
      then (response False ''Unauthorized: Admin role required'', m)
      else if r \<notin> set [''admin'', ''auditor'', ''cashier'']
      then (response False ''Invalid role specified'', m)
      else
        let userRole = \<lparr>address = userAddress, role = r, addedBy = senderAddress,
                          timestamp_ur = now\<rparr>;
            m1 = m\<lparr>userRoles := (userRoles m)(userAddress \<mapsto> userRole)\<rparr>;
            m2 = (if r = ''admin''
                  then m1\<lparr>adminAddresses := insert userAddress (adminAddresses m1)\<rparr>
                  else m1)
        in (response True (''User added to '' @ r @ '' role successfully''), m2))"

definition removeUser_mod ::
  "SecurePOSModule \<Rightarrow> string \<Rightarrow> string \<Rightarrow> BlockchainResponse \<times> SecurePOSModule" where
  "removeUser_mod m userAddress senderAddress =
     (if \<not> hasRoleInternal m senderAddress ''admin''
      then (response False ''Unauthorized: Admin role required'', m)
      else if userAddress = senderAddress \<and> card (adminAddresses m) = 1
      then (response False ''Cannot remove the last admin'', m)
      else
        case userRoles m userAddress of
          Some userRole \<Rightarrow>
            let m1 = m\<lparr>userRoles := (userRoles m)(userAddress := None)\<rparr>;
                m2 = (if role userRole = ''admin''
                      then m1\<lparr>adminAddresses := adminAddresses m1 - {userAddress}\<rparr>
                      else m1)
            in (response True ''User removed successfully'', m2)
        | None \<Rightarrow> (response False ''User not found'', m))"

datatype module_call =
    SubmitSalesHash_mod string string string string nat
  | AddUser_mod string string string nat
  | RemoveUser_mod string string

fun module_step :: "SecurePOSModule \<Rightarrow> module_call \<Rightarrow> SecurePOSModule" where
  "module_step m (SubmitSalesHash_mod store day digest sender now) =
     snd (submitSalesHash_mod m store day digest sender now)"
| "module_step m (AddUser_mod userAddress r sender now) =
     snd (addUser_mod m userAddress r sender now)"
| "module_step m (RemoveUser_mod userAddress sender) = snd (removeUser_mod m userAddress sender)"

definition module_run :: "SecurePOSModule \<Rightarrow> module_call list \<Rightarrow> SecurePOSModule" where
  "module_run = foldl module_step"


section \<open>The HTTP layer (backend/src/middleware/auth.ts, backend/src/routes)\<close>

text \<open>
  A request carries the \<^verbatim>\<open>x-wallet-address\<close> header, the body fields the routes read
  (\<open>None\<close> when a field is absent) and the outcome of multer's \<^verbatim>\<open>upload.single\<close>: the
  upload was refused (file filter or size limit), no file came, or a file was accepted.
  Header and body fields are strings, as the handlers use them; JavaScript's \<^verbatim>\<open>!x\<close> on
  such a field holds when it is absent or the empty string. The addresses and roles of the
  code are ASCII, so the length of a string is its number of characters.

  The handlers' \<^verbatim>\<open>catch\<close> branches (status 500) are reached only when a file system call
  throws; file system calls are taken to succeed. The read-only routes (users, logs, stats,
  submissions, audit-history) stand behind the same two middlewares and are left out.
\<close>

record UploadedFile =
  originalname :: string
  filename :: string
  buffer :: "byte list"
  size :: nat

datatype Upload = UploadRefused | NoFile | Uploaded UploadedFile

record Request =
  x_wallet_address :: "string option"
  body_userAddress :: "string option"
  body_role :: "string option"
  body_storeId :: "string option"
  body_date :: "string option"
  upload :: Upload

datatype Payload =
    NoData
  | SubmitData string string string string nat
  | VerifyData string string bool string string string nat string nat

record Body =
  success_b :: bool
  message_b :: string
  data_b :: Payload

record HttpResponse =
  status :: nat
  body :: Body

definition reply :: "nat \<Rightarrow> bool \<Rightarrow> string \<Rightarrow> HttpResponse" where
  "reply code ok msg = \<lparr>status = code, body = \<lparr>success_b = ok, message_b = msg, data_b = NoData\<rparr>\<rparr>"

text \<open>\<^verbatim>\<open>res.status(code).json(result)\<close> for a service result that carries no data.\<close>

definition json_result :: "nat \<Rightarrow> BlockchainResponse \<Rightarrow> HttpResponse" where
  "json_result code result = reply code (success result) (message result)"

definition startsWith :: "string \<Rightarrow> string \<Rightarrow> bool" where
  "startsWith s p = (take (length p) s = p)"

text \<open>\<^verbatim>\<open>authMiddleware\<close> answers the request itself (\<open>Inl\<close>) or calls \<^verbatim>\<open>next()\<close> with
  \<^verbatim>\<open>req.userAddress\<close> and \<^verbatim>\<open>req.userRole\<close> set (\<open>Inr\<close>).\<close>

definition role_found :: "BlockchainResponse \<Rightarrow> bool" where
  "role_found roleCheck = (success roleCheck \<and> hasRole_res roleCheck = Some True)"

definition authMiddleware :: "BlockchainService \<Rightarrow> Request \<Rightarrow> HttpResponse + string \<times> string" where
  "authMiddleware svc req =
     (case x_wallet_address req of
        None \<Rightarrow> Inl (reply 401 False ''Wallet address required'')
      | Some walletAddress \<Rightarrow>
          if walletAddress = [] then Inl (reply 401 False ''Wallet address required'')
          else if \<not> startsWith walletAddress ''lsk'' \<or> length walletAddress \<noteq> 41
          then Inl (reply 401 False ''Invalid wallet address format'')
          else if role_found (hasRole svc walletAddress ''admin'')
          then Inr (walletAddress, ''admin'')
          else if role_found (hasRole svc walletAddress ''auditor'')
          then Inr (walletAddress, ''auditor'')
          else if role_found (hasRole svc walletAddress ''cashier'')
          then Inr (walletAddress, ''cashier'')
          else Inl (reply 403 False ''Unauthorized: No valid role assigned''))"

text \<open>\<^verbatim>\<open>requireRole(requiredRole)\<close>: \<open>Some\<close> response when it answers, \<open>None\<close> for
  \<^verbatim>\<open>next()\<close>.\<close>

definition requireRole :: "string \<Rightarrow> string \<Rightarrow> HttpResponse option" where
  "requireRole requiredRole userRole =
     (if userRole \<noteq> requiredRole
      then Some (reply 403 False (''Unauthorized: '' @ requiredRole @ '' role required''))
      else None)"

text \<open>The two middlewares in front of every route: \<^verbatim>\<open>app.use(prefix, authMiddleware, routes)\<close>
  and the route's own \<^verbatim>\<open>requireRole(...)\<close>.\<close>

definition guard :: "BlockchainService \<Rightarrow> Request \<Rightarrow> string \<Rightarrow> HttpResponse + string" where
  "guard svc req requiredRole =
     (case authMiddleware svc req of
        Inl res \<Rightarrow> Inl res
      | Inr (userAddress, userRole) \<Rightarrow>
          (case requireRole requiredRole userRole of
             Some res \<Rightarrow> Inl res
           | None \<Rightarrow> Inr userAddress))"


subsection \<open>Storage\<close>

text \<open>
  The routes keep their logs as JSON files, one file per entry, in the directories
  \<^verbatim>\<open>metadata\<close>, \<^verbatim>\<open>audit-logs\<close> and \<^verbatim>\<open>admin-logs\<close> of the storage path
  \<^verbatim>\<open>process.env.STORAGE_PATH || './storage'\<close>. The path of an entry is
  \<^verbatim>\<open>path.join(storage, directory, name)\<close>, where the name is a template literal over
  request fields and the clock; \<^verbatim>\<open>fs.ensureDir\<close> creates the directories above it and
  \<^verbatim>\<open>fs.writeJson\<close> writes the file that this path denotes from the working directory of
  the process, replacing a file that is already there. The state
  holds one file system for the three kinds of entry: a map from the location of a file (the
  names from the root down) to the object written. The uploaded files themselves, which multer
  keeps, are not part of the state.
\<close>

record Metadata =
  storeId_md :: string
  date_md :: string
  hash_md :: string
  filename_md :: string
  originalName_md :: string
  size_md :: nat
  submittedBy_md :: string
  timestamp_md :: nat

record AuditLog =
  auditedBy :: string
  storeId_al :: string
  date_al :: string
  uploadedHash :: string
  storedHash :: string
  hashMatch :: bool
  filename_al :: string
  fileSize :: nat
  timestamp_al :: nat
  originalSubmission :: SalesRecord

record AdminLog =
  action :: string
  adminAddress :: string
  targetAddress :: string
  role_adm :: "string option"
  timestamp_adm :: nat

datatype StoredFile = MetadataFile Metadata | AuditLogFile AuditLog | AdminLogFile AdminLog

text \<open>
  Node's \<^verbatim>\<open>path.join\<close> (POSIX): the non-empty arguments are joined by a slash and the
  result is normalised. Normalisation drops empty segments and \<^verbatim>\<open>.\<close>, lets \<^verbatim>\<open>..\<close>
  remove the segment before it (above the start of a relative path it is kept, above the root
  it is dropped), and keeps a leading and a trailing slash.
\<close>

fun split_slash :: "string \<Rightarrow> string list" where
  "split_slash [] = [[]]"
| "split_slash (c # cs) =
     (if c = CHR ''/'' then [] # split_slash cs
      else (case split_slash cs of [] \<Rightarrow> [[c]] | seg # segs \<Rightarrow> (c # seg) # segs))"

fun join_slash :: "string list \<Rightarrow> string" where
  "join_slash [] = []"
| "join_slash [seg] = seg"
| "join_slash (seg # segs) = seg @ CHR ''/'' # join_slash segs"

definition normalize_step :: "bool \<Rightarrow> string list \<Rightarrow> string \<Rightarrow> string list" where
  "normalize_step allowAboveRoot res seg =
     (if seg = [] \<or> seg = ''.'' then res
      else if seg = ''..''
      then (if res \<noteq> [] \<and> last res \<noteq> ''..'' then butlast res
            else if allowAboveRoot then res @ [''..'']
            else res)
      else res @ [seg])"

definition normalize :: "string \<Rightarrow> string" where
  "normalize p =
     (if p = [] then ''.''
      else
        let isAbsolute = (hd p = CHR ''/'');
            trailingSeparator = (last p = CHR ''/'');
            normalized = join_slash (foldl (normalize_step (\<not> isAbsolute)) [] (split_slash p))
        in if normalized = []
           then (if isAbsolute then ''/'' else if trailingSeparator then ''./'' else ''.'')
           else (if isAbsolute then ''/'' else []) @ normalized
                  @ (if trailingSeparator then ''/'' else []))"

definition path_join :: "string list \<Rightarrow> string" where
  "path_join args =
     (case filter (\<lambda>arg. arg \<noteq> []) args of
        [] \<Rightarrow> ''.''
      | parts \<Rightarrow> normalize (join_slash parts))"

text \<open>
  The file a path denotes: the operating system walks the segments of the path from the root,
  when the path is absolute, and from the working directory otherwise; \<^verbatim>\<open>..\<close> steps to
  the parent, which for the root is the root. A location is the list of names walked.
\<close>

definition resolve_step :: "string list \<Rightarrow> string \<Rightarrow> string list" where
  "resolve_step dir seg =
     (if seg = [] \<or> seg = ''.'' then dir
      else if seg = ''..'' then butlast dir
      else dir @ [seg])"

definition resolve :: "string list \<Rightarrow> string \<Rightarrow> string list" where
  "resolve wd p =
     foldl resolve_step (if p \<noteq> [] \<and> hd p = CHR ''/'' then [] else wd) (split_slash p)"

text \<open>The state of the backend: the service object, the environment variable
  \<^verbatim>\<open>STORAGE_PATH\<close>, the location \<^verbatim>\<open>process.cwd()\<close> and the files written.\<close>

record Backend =
  service :: BlockchainService
  STORAGE_PATH :: "string option"
  process_cwd :: "string list"
  files :: "string list \<rightharpoonup> StoredFile"

definition backend :: Backend where
  "backend = \<lparr>service = blockchainService, STORAGE_PATH = None,
              process_cwd = [''srv'', ''securepos'', ''backend''], files = Map.empty\<rparr>"

text \<open>\<^verbatim>\<open>process.env.STORAGE_PATH || './storage'\<close>.\<close>

definition storage_path :: "Backend \<Rightarrow> string" where
  "storage_path app =
     (case STORAGE_PATH app of
        None \<Rightarrow> ''./storage''
      | Some p \<Rightarrow> if p = [] then ''./storage'' else p)"

definition writeJson :: "Backend \<Rightarrow> string \<Rightarrow> StoredFile \<Rightarrow> Backend" where
  "writeJson app p obj = app\<lparr>files := (files app)(resolve (process_cwd app) p \<mapsto> obj)\<rparr>"

text \<open>The location of one of the three directories, as the listing routes compute it:
  \<^verbatim>\<open>path.join(storage, directory)\<close>.\<close>

definition directory :: "Backend \<Rightarrow> string \<Rightarrow> string list" where
  "directory app d = resolve (process_cwd app) (path_join [storage_path app, d])"

text \<open>A number inside a template literal: its decimal digits.\<close>

fun decimal :: "nat \<Rightarrow> string" where
  "decimal n =
     (if n < 10 then [''0123456789'' ! n]
      else decimal (n div 10) @ [''0123456789'' ! (n mod 10)])"

declare decimal.simps [simp del]

definition metadata_name :: "string \<Rightarrow> string \<Rightarrow> string" where
  "metadata_name store day = store @ ''_'' @ day @ ''.json''"

definition audit_log_name :: "string \<Rightarrow> string \<Rightarrow> nat \<Rightarrow> string" where
  "audit_log_name store day now = ''audit_'' @ store @ ''_'' @ day @ ''_'' @ decimal now @ ''.json''"

definition admin_log_name :: "nat \<Rightarrow> string" where
  "admin_log_name now = ''admin_'' @ decimal now @ ''.json''"

subsection \<open>Routes\<close>

text \<open>
  Each route is the chain of its middlewares and its handler. \<open>now1\<close> and \<open>now2\<close> are the
  values of the handler's first and second reading of the clock. An upload that multer refuses
  ends in the application's error handler (status 500).
\<close>

definition post_add_user :: "Backend \<Rightarrow> Request \<Rightarrow> nat \<Rightarrow> nat \<Rightarrow> HttpResponse \<times> Backend" where
  "post_add_user app req now1 now2 =
     (case guard (service app) req ''admin'' of
        Inl res \<Rightarrow> (res, app)
      | Inr reqUserAddress \<Rightarrow>
          (case (body_userAddress req, body_role req) of
             (Some userAddress, Some r) \<Rightarrow>
               if userAddress = [] \<or> r = []
               then (reply 400 False ''User address and role are required'', app)
               else if r \<notin> set [''admin'', ''auditor'', ''cashier'']
               then (reply 400 False ''Invalid role. Must be admin, auditor, or cashier'', app)
               else if \<not> startsWith userAddress ''lsk'' \<or> length userAddress \<noteq> 41
               then (reply 400 False ''Invalid Lisk address format'', app)
               else
                 let (result, svc) = addUser (service app) userAddress r reqUserAddress;
                     app1 = app\<lparr>service := svc\<rparr>;
                     app2 =
                       (if success result
                        then
                          let adminLog = \<lparr>action = ''add_user'', adminAddress = reqUserAddress,
                                           targetAddress = userAddress, role_adm = Some r,
                                           timestamp_adm = now1\<rparr>
                          in writeJson app1
                               (path_join [storage_path app1, ''admin-logs'', admin_log_name now2])
                               (AdminLogFile adminLog)
                        else app1)
                 in (json_result 200 result, app2)
           | _ \<Rightarrow> (reply 400 False ''User address and role are required'', app)))"

definition delete_remove_user :: "Backend \<Rightarrow> Request \<Rightarrow> nat \<Rightarrow> nat \<Rightarrow> HttpResponse \<times> Backend" where
  "delete_remove_user app req now1 now2 =
     (case guard (service app) req ''admin'' of
        Inl res \<Rightarrow> (res, app)
      | Inr reqUserAddress \<Rightarrow>
          (case body_userAddress req of
             Some userAddress \<Rightarrow>
               if userAddress = []
               then (reply 400 False ''User address is required'', app)
               else
                 let (result, svc) = removeUser (service app) userAddress reqUserAddress;
                     app1 = app\<lparr>service := svc\<rparr>;
                     app2 =
                       (if success result
                        then
                          let adminLog = \<lparr>action = ''remove_user'', adminAddress = reqUserAddress,
                                           targetAddress = userAddress, role_adm = None,
                                           timestamp_adm = now1\<rparr>
                          in writeJson app1
                               (path_join [storage_path app1, ''admin-logs'', admin_log_name now2])
                               (AdminLogFile adminLog)
                        else app1)
                 in (json_result 200 result, app2)
           | None \<Rightarrow> (reply 400 False ''User address is required'', app)))"

definition post_submit_sales :: "Backend \<Rightarrow> Request \<Rightarrow> nat \<Rightarrow> nat \<Rightarrow> HttpResponse \<times> Backend" where
  "post_submit_sales app req now1 now2 =
     (case guard (service app) req ''cashier'' of
        Inl res \<Rightarrow> (res, app)
      | Inr reqUserAddress \<Rightarrow>
          (case upload req of
             UploadRefused \<Rightarrow> (reply 500 False ''Internal server error'', app)
           | NoFile \<Rightarrow> (reply 400 False ''No file uploaded'', app)
           | Uploaded file \<Rightarrow>
               (case (body_storeId req, body_date req) of
                  (Some store, Some day) \<Rightarrow>
                    if store = [] \<or> day = []
                    then (reply 400 False ''Store ID and date are required'', app)
                    else
                      let digest = sha256_hex (buffer file);
                          (blockchainResult, svc) =
                             submitSalesHash (service app) store day digest reqUserAddress now1;
                          app1 = app\<lparr>service := svc\<rparr>
                      in
                        if \<not> success blockchainResult
                        then (json_result 400 blockchainResult, app1)
                        else
                          let md = \<lparr>storeId_md = store, date_md = day, hash_md = digest,
                                     filename_md = filename file,
                                     originalName_md = originalname file, size_md = size file,
                                     submittedBy_md = reqUserAddress, timestamp_md = now2\<rparr>
                          in (\<lparr>status = 200,
                               body = \<lparr>success_b = True,
                                        message_b = ''Sales file submitted successfully'',
                                        data_b = SubmitData store day digest (filename file)
                                                   (size file)\<rparr>\<rparr>,
                              writeJson app1
                                (path_join [storage_path app1, ''metadata'', metadata_name store day])
                                (MetadataFile md))
                | _ \<Rightarrow> (reply 400 False ''Store ID and date are required'', app))))"

definition post_verify :: "Backend \<Rightarrow> Request \<Rightarrow> nat \<Rightarrow> nat \<Rightarrow> HttpResponse \<times> Backend" where
  "post_verify app req now1 now2 =
     (case guard (service app) req ''auditor'' of
        Inl res \<Rightarrow> (res, app)
      | Inr reqUserAddress \<Rightarrow>
          (case upload req of
             UploadRefused \<Rightarrow> (reply 500 False ''Internal server error'', app)
           | NoFile \<Rightarrow> (reply 400 False ''No file uploaded for verification'', app)
           | Uploaded file \<Rightarrow>
               (case (body_storeId req, body_date req) of
                  (Some store, Some day) \<Rightarrow>
                    if store = [] \<or> day = []
                    then (reply 400 False ''Store ID and date are required'', app)
                    else
                      let uploaded = sha256_hex (buffer file);
                          blockchainResult = getSalesHash (service app) store day
                      in
                        if \<not> success blockchainResult
                        then (reply 404 False
                                ''No sales record found for the specified store and date'', app)
                        else
                          (case data blockchainResult of
                             None \<Rightarrow> (reply 500 False ''Failed to verify file'', app)
                           | Some storedRecord \<Rightarrow>
                               let matches = (uploaded = hash storedRecord);
                                   auditLog =
                                     \<lparr>auditedBy = reqUserAddress, storeId_al = store,
                                      date_al = day, uploadedHash = uploaded,
                                      storedHash = hash storedRecord, hashMatch = matches,
                                      filename_al = originalname file, fileSize = size file,
                                      timestamp_al = now1, originalSubmission = storedRecord\<rparr>
                               in (\<lparr>status = 200,
                                    body = \<lparr>success_b = True,
                                             message_b =
                                               (if matches then ''File verification successful''
                                                else ''File verification failed''),
                                             data_b = VerifyData store day matches uploaded
                                                        (hash storedRecord)
                                                        (submittedBy storedRecord)
                                                        (timestamp storedRecord)
                                                        reqUserAddress now1\<rparr>\<rparr>,
                                   writeJson app
                                     (path_join [storage_path app, ''audit-logs'',
                                                 audit_log_name store day now2])
                                     (AuditLogFile auditLog)))
                | _ \<Rightarrow> (reply 400 False ''Store ID and date are required'', app))))"


section \<open>Fixtures\<close>

subsection \<open>Addresses and requests\<close>

text \<open>The three addresses the mock service starts with.\<close>

definition defaultAdmin :: string where
  "defaultAdmin = ''lsk24cd35u4jdq8szo4pnsqe5dsxwrnazyqqqg5eu''"

definition mockAuditor :: string where
  "mockAuditor = ''lsk2a8h3k9j4m5n6p7q8r9s0t1u2v3w4x5y6z7a8b''"

definition mockCashier :: string where
  "mockCashier = ''lsk3b9i4k0j5m6n7p8q9r0s1t2u3v4w5x6y7z8a9c''"



text \<open>A request that carries a wallet address and nothing else.\<close>

definition request :: "string \<Rightarrow> Request" where
  "request w = \<lparr>x_wallet_address = Some w, body_userAddress = None, body_role = None,
                body_storeId = None, body_date = None, upload = NoFile\<rparr>"

text \<open>Requests to the two admin routes.\<close>

definition add_user_request :: "string \<Rightarrow> string \<Rightarrow> string \<Rightarrow> Request" where
  "add_user_request w t r = (request w)\<lparr>body_userAddress := Some t, body_role := Some r\<rparr>"

definition remove_user_request :: "string \<Rightarrow> string \<Rightarrow> Request" where
  "remove_user_request w t = (request w)\<lparr>body_userAddress := Some t\<rparr>"

subsection \<open>Histories of the service\<close>

text \<open>The keys of the submits that succeeded in a sequence of service calls, in order.\<close>

fun submitted_keys :: "BlockchainService \<Rightarrow> service_call list \<Rightarrow> string list" where
  "submitted_keys svc [] = []"
| "submitted_keys svc (c # cs) =
     (case c of
        SubmitSalesHash store day digest sender now \<Rightarrow>
          if success (fst (submitSalesHash svc store day digest sender now))
          then [record_key store day] else []
      | _ \<Rightarrow> [])
     @ submitted_keys (service_step svc c) cs"

text \<open>The same history as pairs of store id and date.\<close>

fun submitted_pairs :: "BlockchainService \<Rightarrow> service_call list \<Rightarrow> (string \<times> string) list" where
  "submitted_pairs svc [] = []"
| "submitted_pairs svc (c # cs) =
     (case c of
        SubmitSalesHash store day digest sender now \<Rightarrow>
          if success (fst (submitSalesHash svc store day digest sender now))
          then [(store, day)] else []
      | _ \<Rightarrow> [])
     @ submitted_pairs (service_step svc c) cs"

subsection \<open>Uploads and prepared states\<close>

text \<open>A request with an uploaded file for a store and a date.\<close>

definition upload_request :: "string \<Rightarrow> string \<Rightarrow> string \<Rightarrow> UploadedFile \<Rightarrow> Request" where
  "upload_request w store day f =
     (request w)\<lparr>body_storeId := Some store, body_date := Some day, upload := Uploaded f\<rparr>"

definition sales_file :: "byte list \<Rightarrow> UploadedFile" where
  "sales_file bs = \<lparr>originalname = ''sales.csv'', filename = ''1_sales.csv'', buffer = bs,
                    size = length bs\<rparr>"



text \<open>A well-formed address that holds no role.\<close>

definition stranger :: string where
  "stranger = ''lsk9zzzzzzzzzzzzzzzzzzzzzzzzzzzzzzzzzzzzz''"

text \<open>The module after genesis with the default admin as deployer, and after that admin has
  made the auditor address an admin and then an auditor again.\<close>

definition genesis :: SecurePOSModule where
  "genesis = init new_SecurePOSModule [defaultAdmin] 0"

definition demoted :: SecurePOSModule where
  "demoted =
     module_run genesis
       [AddUser_mod mockAuditor ''admin'' defaultAdmin 1,
        AddUser_mod mockAuditor ''auditor'' defaultAdmin 2]"

subsection \<open>Path segments\<close>

text \<open>A segment that \<^verbatim>\<open>path.join\<close> keeps as it is: not empty, no slash, neither \<^verbatim>\<open>.\<close> nor
  \<^verbatim>\<open>..\<close>; and a list of segments as normalisation leaves them.\<close>

definition plain :: "string \<Rightarrow> bool" where
  "plain s = (s \<noteq> [] \<and> CHR ''/'' \<notin> set s \<and> s \<noteq> ''.'' \<and> s \<noteq> ''..'')"

definition kept :: "string list \<Rightarrow> bool" where
  "kept segs = (\<forall>seg \<in> set segs. seg \<noteq> [] \<and> CHR ''/'' \<notin> set seg)"

section \<open>Properties\<close>

subsection \<open>Paths\<close>

lemma split_slash_nonempty [simp]: "split_slash s \<noteq> []"
  by (induction s) (auto split: list.splits)

lemma split_slash_no_slash: "CHR ''/'' \<notin> set s \<Longrightarrow> split_slash s = [s]"
  by (induction s) auto

lemma split_slash_append:
  "split_slash (a @ CHR ''/'' # b) = split_slash a @ split_slash b"
  by (induction a) (auto split: list.splits)

lemma split_slash_segments: "seg \<in> set (split_slash s) \<Longrightarrow> CHR ''/'' \<notin> set seg"
proof (induction s arbitrary: seg)
  case Nil
  then show ?case by simp
next
  case (Cons c cs)
  then show ?case
    by (cases "split_slash cs") (auto split: if_splits)
qed

lemma split_join_slash:
  "segs \<noteq> [] \<Longrightarrow> \<forall>seg \<in> set segs. CHR ''/'' \<notin> set seg \<Longrightarrow> split_slash (join_slash segs) = segs"
proof (induction segs rule: join_slash.induct)
  case 1
  then show ?case by simp
next
  case (2 seg)
  then show ?case by (simp add: split_slash_no_slash)
next
  case (3 seg v va)
  then show ?case by (simp add: split_slash_append split_slash_no_slash)
qed

lemma join_slash_Cons: "segs \<noteq> [] \<Longrightarrow> join_slash (seg # segs) = seg @ CHR ''/'' # join_slash segs"
  by (cases segs) simp_all

lemma join_slash_snoc:
  "segs \<noteq> [] \<Longrightarrow> join_slash (segs @ [seg]) = join_slash segs @ CHR ''/'' # seg"
  by (induction segs rule: join_slash.induct) simp_all

lemma join_slash_empty: "join_slash segs = [] \<Longrightarrow> \<forall>seg \<in> set segs. seg \<noteq> [] \<Longrightarrow> segs = []"
  by (induction segs rule: join_slash.induct) auto

lemma normalize_step_plain: "plain seg \<Longrightarrow> normalize_step allow res seg = res @ [seg]"
  by (auto simp add: normalize_step_def plain_def)

lemma resolve_step_plain: "plain seg \<Longrightarrow> resolve_step dir seg = dir @ [seg]"
  by (auto simp add: resolve_step_def plain_def)

lemma foldl_normalize_plain:
  "\<forall>seg \<in> set segs. plain seg \<Longrightarrow> foldl (normalize_step allow) res segs = res @ segs"
  by (induction segs arbitrary: res) (simp_all add: normalize_step_plain)

lemma foldl_resolve_plain:
  "\<forall>seg \<in> set segs. plain seg \<Longrightarrow> foldl resolve_step dir segs = dir @ segs"
  by (induction segs arbitrary: dir) (simp_all add: resolve_step_plain)

lemma kept_normalize_step:
  "kept res \<Longrightarrow> CHR ''/'' \<notin> set seg \<Longrightarrow> kept (normalize_step allow res seg)"
  by (auto simp add: normalize_step_def kept_def dest: in_set_butlastD)

lemma kept_foldl_normalize:
  "kept res \<Longrightarrow> \<forall>seg \<in> set segs. CHR ''/'' \<notin> set seg \<Longrightarrow> kept (foldl (normalize_step allow) res segs)"
  by (induction segs arbitrary: res) (simp_all add: kept_normalize_step)


lemma join_slash_concat:
  "join_slash (base # ds) = base @ concat (map (\<lambda>d. CHR ''/'' # d) ds)"
  by (induction ds arbitrary: base) simp_all

lemma split_slash_joined:
  "\<forall>d \<in> set ds. CHR ''/'' \<notin> set d \<Longrightarrow>
     split_slash (base @ concat (map (\<lambda>d. CHR ''/'' # d) ds)) = split_slash base @ ds"
proof (induction ds rule: rev_induct)
  case Nil
  show ?case by simp
next
  case (snoc d ds)
  have "split_slash ((base @ concat (map (\<lambda>d. CHR ''/'' # d) ds)) @ CHR ''/'' # d)
          = split_slash (base @ concat (map (\<lambda>d. CHR ''/'' # d) ds)) @ split_slash d"
    by (rule split_slash_append)
  with snoc show ?case by (simp add: split_slash_no_slash)
qed

lemma join_slash_kept:
  "segs \<noteq> [] \<Longrightarrow> kept segs \<Longrightarrow> join_slash segs \<noteq> [] \<and> hd (join_slash segs) \<noteq> CHR ''/''"
proof (induction segs rule: join_slash.induct)
  case 1
  then show ?case by simp
next
  case (2 seg)
  then show ?case by (cases seg) (auto simp add: kept_def)
next
  case (3 seg v va)
  then show ?case by (cases seg) (auto simp add: kept_def)
qed

lemma plain_kept: "\<forall>d \<in> set ds. plain d \<Longrightarrow> kept ds"
  by (auto simp add: kept_def plain_def)

lemma kept_append: "kept (xs @ ys) = (kept xs \<and> kept ys)"
  by (auto simp add: kept_def)

lemma resolve_path_join:
  assumes base: "base \<noteq> []" and ds: "ds \<noteq> []" "\<forall>d \<in> set ds. plain d"
  shows "resolve wd (path_join (base # ds)) =
           foldl resolve_step (if hd base = CHR ''/'' then [] else wd)
             (foldl (normalize_step (hd base \<noteq> CHR ''/'')) [] (split_slash base)) @ ds"
proof -
  let ?p = "join_slash (base # ds)"
  define nb where "nb = foldl (normalize_step (hd base \<noteq> CHR ''/'')) [] (split_slash base)"
  define start where "start = (if hd base = CHR ''/'' then [] else wd)"
  have ne: "\<forall>d \<in> set ds. d \<noteq> [] \<and> CHR ''/'' \<notin> set d"
    using ds(2) by (auto simp add: plain_def)
  have p: "?p = base @ concat (map (\<lambda>d. CHR ''/'' # d) ds)"
    by (rule join_slash_concat)
  have pj: "path_join (base # ds) = normalize ?p"
    using base ne by (simp add: path_join_def)
  have p_ne: "?p \<noteq> []" and hd_p: "hd ?p = hd base"
    using base by (simp_all add: p)
  have last_p: "last ?p \<noteq> CHR ''/''"
  proof -
    obtain ds' d where d: "ds = ds' @ [d]"
      using ds(1) by (cases ds rule: rev_cases) auto
    then have "d \<noteq> []" "CHR ''/'' \<notin> set d" using ne by auto
    then have "last d \<noteq> CHR ''/''" using last_in_set by metis
    with \<open>d \<noteq> []\<close> show ?thesis by (simp add: join_slash_concat d)
  qed
  have split_p: "split_slash ?p = split_slash base @ ds"
    using ne by (simp add: p split_slash_joined)
  have segs: "foldl (normalize_step (hd base \<noteq> CHR ''/'')) [] (split_slash ?p) = nb @ ds"
    using ds(2) by (simp add: split_p foldl_normalize_plain nb_def)
  have kept_nb: "kept nb"
    unfolding nb_def
    by (rule kept_foldl_normalize) (auto simp add: kept_def dest: split_slash_segments)
  have kept_all: "kept (nb @ ds)"
    using kept_nb ds(2) by (simp add: kept_append plain_kept)
  have body: "join_slash (nb @ ds) \<noteq> []" "hd (join_slash (nb @ ds)) \<noteq> CHR ''/''"
    using join_slash_kept[OF _ kept_all] ds(1) by simp_all
  have split_body: "split_slash (join_slash (nb @ ds)) = nb @ ds"
    using kept_all ds(1) by (intro split_join_slash) (auto simp add: kept_def)
  have norm: "normalize ?p = (if hd base = CHR ''/'' then ''/'' else []) @ join_slash (nb @ ds)"
    using p_ne last_p body(1) by (simp add: normalize_def Let_def hd_p segs)
  have fold: "foldl resolve_step start (nb @ ds) = foldl resolve_step start nb @ ds"
    using ds(2) by (simp add: foldl_resolve_plain)
  have "resolve wd (normalize ?p) = foldl resolve_step start (nb @ ds)"
  proof (cases "hd base = CHR ''/''")
    case True
    then have "resolve wd (normalize ?p) = foldl resolve_step [] ([] # (nb @ ds))"
      by (simp add: norm resolve_def split_body)
    also have "\<dots> = foldl resolve_step [] (nb @ ds)"
      by (simp add: resolve_step_def)
    finally show ?thesis using True by (simp add: start_def)
  next
    case False
    then show ?thesis
      using body by (simp add: norm resolve_def split_body start_def)
  qed
  then show ?thesis
    unfolding pj fold by (simp add: nb_def start_def)
qed

lemma resolve_path_join_file:
  assumes "base \<noteq> []" "plain dir" "plain name"
  shows "resolve wd (path_join [base, dir, name]) = resolve wd (path_join [base, dir]) @ [name]"
  using resolve_path_join[of base "[dir, name]" wd] resolve_path_join[of base "[dir]" wd] assms
  by simp

lemma storage_path_nonempty: "storage_path app \<noteq> []"
  by (simp add: storage_path_def split: option.splits)

lemma storage_path_service [simp]: "storage_path (app\<lparr>service := svc\<rparr>) = storage_path app"
  by (simp add: storage_path_def)

lemma directory_service [simp]: "directory (app\<lparr>service := svc\<rparr>) d = directory app d"
  by (simp add: directory_def)

lemma directory_files [simp]: "directory (app\<lparr>files := fs\<rparr>) d = directory app d"
  by (simp add: directory_def storage_path_def)

lemma writeJson_fields [simp]:
  "service (writeJson app p obj) = service app"
  "STORAGE_PATH (writeJson app p obj) = STORAGE_PATH app"
  "process_cwd (writeJson app p obj) = process_cwd app"
  "files (writeJson app p obj) = (files app)(resolve (process_cwd app) p \<mapsto> obj)"
  by (simp_all add: writeJson_def)

lemma storage_path_files [simp]: "storage_path (app\<lparr>files := fs\<rparr>) = storage_path app"
  by (simp add: storage_path_def)

lemma storage_path_writeJson [simp]: "storage_path (writeJson app p obj) = storage_path app"
  by (simp add: storage_path_def)

lemma directory_writeJson [simp]: "directory (writeJson app p obj) d = directory app d"
  by (simp add: directory_def)

lemma decimal_digits: "set (decimal n) \<subseteq> set ''0123456789''"
proof (induction n rule: decimal.induct)
  case (1 n)
  have d: "\<And>k. k < 10 \<Longrightarrow> ''0123456789'' ! k \<in> set ''0123456789''"
    by (rule nth_mem) simp
  show ?case
  proof (cases "n < 10")
    case True
    then show ?thesis using d[of n] by (subst decimal.simps) simp
  next
    case False
    then show ?thesis
      using "1.IH" d[of "n mod 10"] by (subst decimal.simps) simp
  qed
qed

lemma decimal_no_slash: "CHR ''/'' \<notin> set (decimal n)"
  using decimal_digits[of n] by auto

lemma plain_admin_log_name: "plain (admin_log_name now)"
  by (simp add: plain_def admin_log_name_def decimal_no_slash)

lemma plain_audit_log_name:
  "CHR ''/'' \<notin> set store \<Longrightarrow> CHR ''/'' \<notin> set day \<Longrightarrow> plain (audit_log_name store day now)"
  by (simp add: plain_def audit_log_name_def decimal_no_slash)

lemma plain_directories: "plain ''admin-logs''" "plain ''audit-logs''" "plain ''metadata''"
  by (simp_all add: plain_def)

text \<open>A plain name lands in the directory, under that name.\<close>

lemma location_in_directory:
  "plain d \<Longrightarrow> plain name \<Longrightarrow>
     resolve (process_cwd app) (path_join [storage_path app, d, name]) = directory app d @ [name]"
  unfolding directory_def by (rule resolve_path_join_file) (simp_all add: storage_path_nonempty)

subsection \<open>Auxiliary facts\<close>

lemma role_found_hasRole: "role_found (hasRole svc w r) = (mockUsers svc w = Some r)"
  by (simp add: role_found_def hasRole_def Let_def)

lemma authMiddleware_wellformed:
  assumes "x_wallet_address req = Some w" "w \<noteq> []" "startsWith w ''lsk''" "length w = 41"
  shows "authMiddleware svc req =
     (if mockUsers svc w = Some ''admin'' then Inr (w, ''admin'')
      else if mockUsers svc w = Some ''auditor'' then Inr (w, ''auditor'')
      else if mockUsers svc w = Some ''cashier'' then Inr (w, ''cashier'')
      else Inl (reply 403 False ''Unauthorized: No valid role assigned''))"
  using assms by (simp add: authMiddleware_def role_found_hasRole)

lemma guard_wellformed:
  assumes "x_wallet_address req = Some w" "w \<noteq> []" "startsWith w ''lsk''" "length w = 41"
    and "required \<in> set [''admin'', ''auditor'', ''cashier'']"
  shows "guard svc req required =
     (if mockUsers svc w = Some required then Inr w
      else if mockUsers svc w \<in> {Some ''admin'', Some ''auditor'', Some ''cashier''}
      then Inl (reply 403 False (''Unauthorized: '' @ required @ '' role required''))
      else Inl (reply 403 False ''Unauthorized: No valid role assigned''))"
  using assms(5) by (auto simp add: guard_def authMiddleware_wellformed[OF assms(1-4)] requireRole_def)


lemma hasRoleInternal_iff:
  "hasRoleInternal m a r = (\<exists>u. userRoles m a = Some u \<and> role u = r)"
  by (simp add: hasRoleInternal_def split: option.splits)

lemma service_step_keeps_record:
  "mockSalesRecords svc k = Some rec \<Longrightarrow> mockSalesRecords (service_step svc c) k = Some rec"
  by (cases c) (auto simp add: submitSalesHash_def addUser_def removeUser_def Let_def)

lemma service_run_keeps_record:
  "mockSalesRecords svc k = Some rec \<Longrightarrow> mockSalesRecords (service_run svc cs) k = Some rec"
  unfolding service_run_def
  by (induction cs arbitrary: svc) (simp_all add: service_step_keeps_record)

lemma module_step_keeps_record:
  "salesRecords m k = Some rec \<Longrightarrow> salesRecords (module_step m c) k = Some rec"
  by (cases c)
     (auto simp add: submitSalesHash_mod_def addUser_mod_def removeUser_mod_def Let_def
           split: option.splits)

lemma module_run_keeps_record:
  "salesRecords m k = Some rec \<Longrightarrow> salesRecords (module_run m cs) k = Some rec"
  unfolding module_run_def
  by (induction cs arbitrary: m) (simp_all add: module_step_keeps_record)

lemma submitSalesHash_success:
  assumes "submitSalesHash svc store day digest sender now = (res, svc1)" "success res"
  shows "mockSalesRecords svc1 (record_key store day) =
           Some \<lparr>storeId = store, date = day, hash = digest, timestamp = now,
                  submittedBy = sender\<rparr>"
  using assms by (auto simp add: submitSalesHash_def Let_def response_def split: if_splits)

lemma submitSalesHash_mod_success:
  assumes "submitSalesHash_mod m store day digest sender now = (res, m1)" "success res"
  shows "salesRecords m1 (record_key store day) =
           Some \<lparr>storeId = store, date = day, hash = digest, timestamp = now,
                  submittedBy = sender\<rparr> \<and> store \<noteq> [] \<and> day \<noteq> []"
  using assms by (auto simp add: submitSalesHash_mod_def Let_def response_def split: if_splits)

lemma submitSalesHash_existing:
  assumes "mockSalesRecords svc (record_key store day) = Some rec"
  shows "\<not> success (fst (submitSalesHash svc store day digest sender now))"
    and "snd (submitSalesHash svc store day digest sender now) = svc"
    and "mockUsers svc sender = Some ''cashier'' \<Longrightarrow>
           fst (submitSalesHash svc store day digest sender now)
             = response False ''Sales record already exists for this date''"
  using assms by (simp_all add: submitSalesHash_def Let_def response_def)

lemma submitSalesHash_mod_existing:
  assumes "salesRecords m (record_key store day) = Some rec"
  shows "\<not> success (fst (submitSalesHash_mod m store day digest sender now))"
    and "snd (submitSalesHash_mod m store day digest sender now) = m"
    and "hasRoleInternal m sender ''cashier'' \<Longrightarrow> store \<noteq> [] \<Longrightarrow> day \<noteq> [] \<Longrightarrow> digest \<noteq> [] \<Longrightarrow>
           fst (submitSalesHash_mod m store day digest sender now)
             = response False ''Sales record for this store and date already exists''"
  using assms by (simp_all add: submitSalesHash_mod_def Let_def response_def)

lemma mockUsers_initial:
  "mockUsers blockchainService defaultAdmin = Some ''admin''"
  "mockUsers blockchainService mockAuditor = Some ''auditor''"
  "mockUsers blockchainService mockCashier = Some ''cashier''"
  by (simp_all add: blockchainService_def defaultAdmin_def mockAuditor_def mockCashier_def)

lemma wellformed_initial:
  "defaultAdmin \<noteq> [] \<and> startsWith defaultAdmin ''lsk'' \<and> length defaultAdmin = 41"
  "mockAuditor \<noteq> [] \<and> startsWith mockAuditor ''lsk'' \<and> length mockAuditor = 41"
  "mockCashier \<noteq> [] \<and> startsWith mockCashier ''lsk'' \<and> length mockCashier = 41"
  by (simp_all add: startsWith_def defaultAdmin_def mockAuditor_def mockCashier_def)


lemma addresses_distinct:
  "defaultAdmin \<noteq> mockAuditor" "defaultAdmin \<noteq> mockCashier" "mockAuditor \<noteq> mockCashier"
  by (simp_all add: defaultAdmin_def mockAuditor_def mockCashier_def)

subsection \<open>First write wins\<close>

text \<open>
  C2. Once a submit for \<open>(store, day)\<close> has succeeded, the record it stored is still the
  record of that key after any further calls, and every later submit for the key fails and
  changes nothing, whatever digest it carries. The failure is the duplicate-key answer when the
  caller passes the cashier check that precedes it (and, in the module, the digest is not
  empty, which the parameter check before it asks for). Stated for the mock service and for
  the Lisk module.
\<close>

theorem C2_first_write_wins:
  "(submitSalesHash svc store day digest sender now = (res, svc1) \<and> success res
     \<longrightarrow>
     (let svc2 = service_run svc1 calls;
          second = submitSalesHash svc2 store day digest' sender' now'
      in mockSalesRecords svc2 (record_key store day) =
           Some \<lparr>storeId = store, date = day, hash = digest, timestamp = now,
                  submittedBy = sender\<rparr>
         \<and> \<not> success (fst second) \<and> snd second = svc2
         \<and> (mockUsers svc2 sender' = Some ''cashier''
              \<longrightarrow> fst second = response False ''Sales record already exists for this date'')))
   \<and>
   (submitSalesHash_mod m store day digest sender now = (res_m, m1) \<and> success res_m
     \<longrightarrow>
     (let m2 = module_run m1 calls_m;
          second = submitSalesHash_mod m2 store day digest' sender' now'
      in salesRecords m2 (record_key store day) =
           Some \<lparr>storeId = store, date = day, hash = digest, timestamp = now,
                  submittedBy = sender\<rparr>
         \<and> \<not> success (fst second) \<and> snd second = m2
         \<and> (hasRoleInternal m2 sender' ''cashier'' \<and> digest' \<noteq> []
              \<longrightarrow> fst second
                    = response False ''Sales record for this store and date already exists'')))"
proof (intro conjI impI)
  let ?rec = "\<lparr>storeId = store, date = day, hash = digest, timestamp = now,
                  submittedBy = sender\<rparr>"
  assume h: "submitSalesHash svc store day digest sender now = (res, svc1) \<and> success res"
  have a: "mockSalesRecords (service_run svc1 calls) (record_key store day) = Some ?rec"
    by (rule service_run_keeps_record) (rule submitSalesHash_success[of svc _ _ _ _ _ res], simp_all add: h)
  show "let svc2 = service_run svc1 calls;
          second = submitSalesHash svc2 store day digest' sender' now'
      in mockSalesRecords svc2 (record_key store day) = Some ?rec
         \<and> \<not> success (fst second) \<and> snd second = svc2
         \<and> (mockUsers svc2 sender' = Some ''cashier''
              \<longrightarrow> fst second = response False ''Sales record already exists for this date'')"
    unfolding Let_def using a submitSalesHash_existing[OF a] by blast
next
  let ?rec = "\<lparr>storeId = store, date = day, hash = digest, timestamp = now,
                  submittedBy = sender\<rparr>"
  assume h: "submitSalesHash_mod m store day digest sender now = (res_m, m1) \<and> success res_m"
  have b0: "salesRecords m1 (record_key store day) = Some ?rec \<and> store \<noteq> [] \<and> day \<noteq> []"
    by (rule submitSalesHash_mod_success[of m _ _ _ _ _ res_m]) (simp_all add: h)
  then have b: "salesRecords (module_run m1 calls_m) (record_key store day) = Some ?rec"
    by (simp add: module_run_keeps_record)
  show "let m2 = module_run m1 calls_m;
          second = submitSalesHash_mod m2 store day digest' sender' now'
      in salesRecords m2 (record_key store day) = Some ?rec
         \<and> \<not> success (fst second) \<and> snd second = m2
         \<and> (hasRoleInternal m2 sender' ''cashier'' \<and> digest' \<noteq> []
              \<longrightarrow> fst second
                    = response False ''Sales record for this store and date already exists'')"
    unfolding Let_def using b b0 submitSalesHash_mod_existing[OF b] by blast
qed

theorem C2_first_write_wins_witness:
  "(let svc1 = snd (submitSalesHash blockchainService ''S1'' ''2024-01-01'' ''aa'' mockCashier 5);
        svc2 = service_run svc1 [AddUser ''x'' ''cashier'' defaultAdmin]
    in success (fst (submitSalesHash blockchainService ''S1'' ''2024-01-01'' ''aa'' mockCashier 5))
       \<and> mockUsers svc2 mockCashier = Some ''cashier''
       \<and> submitSalesHash svc2 ''S1'' ''2024-01-01'' ''bb'' mockCashier 9
           = (response False ''Sales record already exists for this date'', svc2)
       \<and> mockSalesRecords svc2 (record_key ''S1'' ''2024-01-01'') =
           Some \<lparr>storeId = ''S1'', date = ''2024-01-01'', hash = ''aa'', timestamp = 5,
                  submittedBy = mockCashier\<rparr>)
   \<and>
   (let m0 = snd (addUser_mod (init new_SecurePOSModule [defaultAdmin] 0) mockCashier ''cashier''
                    defaultAdmin 1);
        m1 = snd (submitSalesHash_mod m0 ''S1'' ''2024-01-01'' ''aa'' mockCashier 5);
        m2 = module_run m1 [AddUser_mod ''x'' ''cashier'' defaultAdmin 7]
    in success (fst (submitSalesHash_mod m0 ''S1'' ''2024-01-01'' ''aa'' mockCashier 5))
       \<and> hasRoleInternal m2 mockCashier ''cashier''
       \<and> submitSalesHash_mod m2 ''S1'' ''2024-01-01'' ''bb'' mockCashier 9
           = (response False ''Sales record for this store and date already exists'', m2)
       \<and> salesRecords m2 (record_key ''S1'' ''2024-01-01'') =
           Some \<lparr>storeId = ''S1'', date = ''2024-01-01'', hash = ''aa'', timestamp = 5,
                  submittedBy = mockCashier\<rparr>)"
proof -
  let ?first = "submitSalesHash blockchainService ''S1'' ''2024-01-01'' ''aa'' mockCashier 5"
  let ?m0 = "snd (addUser_mod (init new_SecurePOSModule [defaultAdmin] 0) mockCashier ''cashier''
                    defaultAdmin 1)"
  let ?first_m = "submitSalesHash_mod ?m0 ''S1'' ''2024-01-01'' ''aa'' mockCashier 5"
  have s1: "?first = (fst ?first, snd ?first) \<and> success (fst ?first)"
    by (simp add: submitSalesHash_def blockchainService_def response_def Let_def mockCashier_def)
  have u: "mockUsers (service_run (snd ?first) [AddUser ''x'' ''cashier'' defaultAdmin]) mockCashier
             = Some ''cashier''"
    by (simp add: service_run_def submitSalesHash_def addUser_def mockUsers_initial Let_def
          blockchainService_def mockCashier_def defaultAdmin_def)
  have c0: "hasRoleInternal ?m0 mockCashier ''cashier''"
    by (simp add: addUser_mod_def init_def new_SecurePOSModule_def hasRoleInternal_def Let_def
          mockCashier_def defaultAdmin_def)
  have s2: "?first_m = (fst ?first_m, snd ?first_m) \<and> success (fst ?first_m)"
    using c0 by (simp add: submitSalesHash_mod_def response_def Let_def record_key_def
          addUser_mod_def init_def new_SecurePOSModule_def)
  have c2: "hasRoleInternal (module_run (snd ?first_m) [AddUser_mod ''x'' ''cashier'' defaultAdmin 7])
              mockCashier ''cashier'' \<and> ''bb'' \<noteq> []"
    by (simp add: module_run_def submitSalesHash_mod_def addUser_mod_def init_def
          new_SecurePOSModule_def hasRoleInternal_def Let_def record_key_def
          mockCashier_def defaultAdmin_def)
  show ?thesis
    using C2_first_write_wins[of blockchainService "''S1''" "''2024-01-01''" "''aa''" mockCashier 5
            "fst ?first" "snd ?first" "[AddUser ''x'' ''cashier'' defaultAdmin]" "''bb''" mockCashier 9
            ?m0 "fst ?first_m" "snd ?first_m" "[AddUser_mod ''x'' ''cashier'' defaultAdmin 7]"]
          s1 s2 u c2
    unfolding Let_def by (metis prod.collapse)
qed

subsection \<open>Exact role match\<close>

text \<open>
  C4. Authorization is by exact match of the role, with no hierarchy. The route guard
  (authMiddleware, then requireRole) lets a well-formed address through exactly when the role
  stored for it is the required one, and answers 403 otherwise; the module's
  \<open>hasRoleInternal\<close> holds exactly when the stored role is the one asked for; the cashier
  check of submitSalesHash fails exactly when the sender's role is not cashier. In particular
  an address whose role is admin has its submit rejected: by the service, by the module and by
  the submit route.
\<close>

theorem C4_exact_role_match:
  "(required \<in> set [''admin'', ''auditor'', ''cashier''] \<and> x_wallet_address req = Some w
      \<and> w \<noteq> [] \<and> startsWith w ''lsk'' \<and> length w = 41
      \<longrightarrow> (guard svc req required = Inr w) = (mockUsers svc w = Some required)
          \<and> (mockUsers svc w \<noteq> Some required
                \<longrightarrow> (\<exists>res. guard svc req required = Inl res \<and> status res = 403)))
   \<and> hasRoleInternal m a r = (\<exists>u. userRoles m a = Some u \<and> role u = r)
   \<and> (fst (submitSalesHash svc store day digest a now)
          = response False ''Unauthorized: Cashier role required'')
       = (mockUsers svc a \<noteq> Some ''cashier'')
   \<and> (fst (submitSalesHash_mod m store day digest a now)
          = response False ''Unauthorized: Cashier role required'')
       = (\<not> hasRoleInternal m a ''cashier'')
   \<and> (mockUsers svc a = Some ''admin''
        \<longrightarrow> submitSalesHash svc store day digest a now
              = (response False ''Unauthorized: Cashier role required'', svc))
   \<and> (hasRoleInternal m a ''admin''
        \<longrightarrow> submitSalesHash_mod m store day digest a now
              = (response False ''Unauthorized: Cashier role required'', m))
   \<and> (x_wallet_address req = Some w \<and> w \<noteq> [] \<and> startsWith w ''lsk'' \<and> length w = 41
        \<and> mockUsers (service app) w = Some ''admin''
        \<longrightarrow> post_submit_sales app req now1 now2
              = (reply 403 False ''Unauthorized: cashier role required'', app))"
proof (intro conjI impI)
  assume h: "required \<in> set [''admin'', ''auditor'', ''cashier''] \<and> x_wallet_address req = Some w
      \<and> w \<noteq> [] \<and> startsWith w ''lsk'' \<and> length w = 41"
  then have g: "guard svc req required =
     (if mockUsers svc w = Some required then Inr w
      else if mockUsers svc w \<in> {Some ''admin'', Some ''auditor'', Some ''cashier''}
      then Inl (reply 403 False (''Unauthorized: '' @ required @ '' role required''))
      else Inl (reply 403 False ''Unauthorized: No valid role assigned''))"
    by (intro guard_wellformed) simp_all
  show "(guard svc req required = Inr w) = (mockUsers svc w = Some required)"
    by (simp add: g)
  assume "mockUsers svc w \<noteq> Some required"
  then show "\<exists>res. guard svc req required = Inl res \<and> status res = 403"
    by (simp add: g reply_def)
next
  show "hasRoleInternal m a r = (\<exists>u. userRoles m a = Some u \<and> role u = r)"
    by (rule hasRoleInternal_iff)
next
  show "(fst (submitSalesHash svc store day digest a now)
          = response False ''Unauthorized: Cashier role required'')
       = (mockUsers svc a \<noteq> Some ''cashier'')"
    by (simp add: submitSalesHash_def response_def Let_def)
next
  show "(fst (submitSalesHash_mod m store day digest a now)
          = response False ''Unauthorized: Cashier role required'')
       = (\<not> hasRoleInternal m a ''cashier'')"
    by (simp add: submitSalesHash_mod_def response_def Let_def)
next
  assume "mockUsers svc a = Some ''admin''"
  then show "submitSalesHash svc store day digest a now
              = (response False ''Unauthorized: Cashier role required'', svc)"
    by (simp add: submitSalesHash_def)
next
  assume "hasRoleInternal m a ''admin''"
  then show "submitSalesHash_mod m store day digest a now
              = (response False ''Unauthorized: Cashier role required'', m)"
    by (auto simp add: submitSalesHash_mod_def hasRoleInternal_def split: option.splits)
next
  assume h: "x_wallet_address req = Some w \<and> w \<noteq> [] \<and> startsWith w ''lsk'' \<and> length w = 41
        \<and> mockUsers (service app) w = Some ''admin''"
  then have "guard (service app) req ''cashier''
               = Inl (reply 403 False ''Unauthorized: cashier role required'')"
    by (subst guard_wellformed[of req w]) simp_all
  then show "post_submit_sales app req now1 now2
              = (reply 403 False ''Unauthorized: cashier role required'', app)"
    by (simp add: post_submit_sales_def)
qed

theorem C4_exact_role_match_witness:
  "guard blockchainService (request mockCashier) ''cashier'' = Inr mockCashier
   \<and> guard blockchainService (request defaultAdmin) ''cashier'' \<noteq> Inr defaultAdmin
   \<and> hasRoleInternal (init new_SecurePOSModule [defaultAdmin] 0) defaultAdmin ''admin''
   \<and> submitSalesHash blockchainService ''S1'' ''2024-01-01'' ''aa'' defaultAdmin 5
       = (response False ''Unauthorized: Cashier role required'', blockchainService)
   \<and> submitSalesHash_mod (init new_SecurePOSModule [defaultAdmin] 0) ''S1'' ''2024-01-01'' ''aa''
         defaultAdmin 5
       = (response False ''Unauthorized: Cashier role required'',
          init new_SecurePOSModule [defaultAdmin] 0)
   \<and> post_submit_sales backend (request defaultAdmin) 5 6
       = (reply 403 False ''Unauthorized: cashier role required'', backend)"
proof -
  let ?m = "init new_SecurePOSModule [defaultAdmin] 0"
  have w1: "''cashier'' \<in> set [''admin'', ''auditor'', ''cashier'']
      \<and> x_wallet_address (request mockCashier) = Some mockCashier
      \<and> mockCashier \<noteq> [] \<and> startsWith mockCashier ''lsk'' \<and> length mockCashier = 41"
    using wellformed_initial(3) by (simp add: request_def)
  have w2: "''cashier'' \<in> set [''admin'', ''auditor'', ''cashier'']
      \<and> x_wallet_address (request defaultAdmin) = Some defaultAdmin
      \<and> defaultAdmin \<noteq> [] \<and> startsWith defaultAdmin ''lsk'' \<and> length defaultAdmin = 41"
    using wellformed_initial(1) by (simp add: request_def)
  have r: "hasRoleInternal ?m defaultAdmin ''admin''"
    by (simp add: init_def new_SecurePOSModule_def hasRoleInternal_def defaultAdmin_def)
  have s: "mockUsers (service backend) defaultAdmin = Some ''admin''"
    by (simp add: backend_def mockUsers_initial)
  note a = C4_exact_role_match[of "''cashier''" "request mockCashier" mockCashier blockchainService
             ?m defaultAdmin "''admin''" "''S1''" "''2024-01-01''" "''aa''" 5 backend 5 6]
  note b = C4_exact_role_match[of "''cashier''" "request defaultAdmin" defaultAdmin blockchainService
             ?m defaultAdmin "''admin''" "''S1''" "''2024-01-01''" "''aa''" 5 backend 5 6]
  show ?thesis
    using a b w1 w2 r s mockUsers_initial by simp
qed

subsection \<open>The guard and the admin routes, case by case\<close>

lemma authMiddleware_Inr:
  "authMiddleware svc req = Inr (u, ur) \<Longrightarrow>
     x_wallet_address req = Some u \<and> u \<noteq> [] \<and> startsWith u ''lsk'' \<and> length u = 41
     \<and> mockUsers svc u = Some ur"
  by (auto simp add: authMiddleware_def role_found_hasRole split: option.splits if_splits)

lemma guard_Inr:
  "guard svc req required = Inr u \<Longrightarrow>
     x_wallet_address req = Some u \<and> u \<noteq> [] \<and> startsWith u ''lsk'' \<and> length u = 41
     \<and> mockUsers svc u = Some required"
  by (auto simp add: guard_def requireRole_def dest!: authMiddleware_Inr
           split: sum.splits prod.splits if_splits)

lemma authMiddleware_Inl:
  "authMiddleware svc req = Inl res \<Longrightarrow> \<not> success_b (body res) \<and> (status res = 401 \<or> status res = 403)"
  by (auto simp add: authMiddleware_def reply_def split: option.splits if_splits)

lemma guard_Inl:
  "guard svc req required = Inl res \<Longrightarrow> \<not> success_b (body res) \<and> (status res = 401 \<or> status res = 403)"
  by (auto simp add: guard_def requireRole_def reply_def dest!: authMiddleware_Inl
           split: sum.splits prod.splits if_splits)

lemma post_add_user_admin:
  assumes "guard (service app) req ''admin'' = Inr w"
  shows "post_add_user app req now1 now2 =
     (case (body_userAddress req, body_role req) of
        (Some t, Some r) \<Rightarrow>
          if t = [] \<or> r = []
          then (reply 400 False ''User address and role are required'', app)
          else if r \<notin> set [''admin'', ''auditor'', ''cashier'']
          then (reply 400 False ''Invalid role. Must be admin, auditor, or cashier'', app)
          else if \<not> startsWith t ''lsk'' \<or> length t \<noteq> 41
          then (reply 400 False ''Invalid Lisk address format'', app)
          else
            (reply 200 True (''User added to '' @ r @ '' role successfully''),
             writeJson (app\<lparr>service := (service app)\<lparr>mockUsers := (mockUsers (service app))(t \<mapsto> r)\<rparr>\<rparr>)
                  (path_join [storage_path app, ''admin-logs'', admin_log_name now2])
                  (AdminLogFile \<lparr>action = ''add_user'', adminAddress = w, targetAddress = t,
                    role_adm = Some r, timestamp_adm = now1\<rparr>))
      | _ \<Rightarrow> (reply 400 False ''User address and role are required'', app))"
proof -
  have adm: "mockUsers (service app) w = Some ''admin''"
    using guard_Inr[OF assms] by simp
  show ?thesis
    by (simp add: post_add_user_def assms addUser_def adm json_result_def response_def Let_def
             split: option.splits prod.splits)
qed

lemma post_add_user_success:
  assumes "success_b (body (fst (post_add_user app req now1 now2)))"
  shows "\<exists>w t r. guard (service app) req ''admin'' = Inr w
           \<and> body_userAddress req = Some t \<and> t \<noteq> [] \<and> startsWith t ''lsk'' \<and> length t = 41
           \<and> body_role req = Some r \<and> r \<in> set [''admin'', ''auditor'', ''cashier'']
           \<and> post_add_user app req now1 now2 =
               (reply 200 True (''User added to '' @ r @ '' role successfully''),
                writeJson (app\<lparr>service := (service app)\<lparr>mockUsers := (mockUsers (service app))(t \<mapsto> r)\<rparr>\<rparr>)
                  (path_join [storage_path app, ''admin-logs'', admin_log_name now2])
                  (AdminLogFile \<lparr>action = ''add_user'', adminAddress = w, targetAddress = t,
                       role_adm = Some r, timestamp_adm = now1\<rparr>))"
proof (cases "guard (service app) req ''admin''")
  case (Inl res)
  then have "post_add_user app req now1 now2 = (res, app)"
    by (simp add: post_add_user_def)
  with assms guard_Inl[OF Inl] show ?thesis by simp
next
  case (Inr w)
  show ?thesis
    using assms unfolding post_add_user_admin[OF Inr]
    by (auto simp add: Inr reply_def split: option.splits if_splits)
qed

lemma post_add_user_failure:
  assumes "\<not> success_b (body (fst (post_add_user app req now1 now2)))"
  shows "snd (post_add_user app req now1 now2) = app"
proof (cases "guard (service app) req ''admin''")
  case (Inl res)
  then show ?thesis by (simp add: post_add_user_def)
next
  case (Inr w)
  show ?thesis
    using assms unfolding post_add_user_admin[OF Inr]
    by (auto simp add: reply_def split: option.splits if_splits)
qed

lemma delete_remove_user_admin:
  assumes "guard (service app) req ''admin'' = Inr w"
  shows "delete_remove_user app req now1 now2 =
     (case body_userAddress req of
        Some t \<Rightarrow>
          if t = [] then (reply 400 False ''User address is required'', app)
          else if mockUsers (service app) t \<noteq> None
          then (reply 200 True ''User removed successfully'',
                writeJson (app\<lparr>service := (service app)\<lparr>mockUsers := (mockUsers (service app))(t := None)\<rparr>\<rparr>)
                  (path_join [storage_path app, ''admin-logs'', admin_log_name now2])
                  (AdminLogFile \<lparr>action = ''remove_user'', adminAddress = w, targetAddress = t,
                       role_adm = None, timestamp_adm = now1\<rparr>))
          else (reply 200 False ''User not found'', app)
      | None \<Rightarrow> (reply 400 False ''User address is required'', app))"
proof -
  have adm: "mockUsers (service app) w = Some ''admin''"
    using guard_Inr[OF assms] by simp
  show ?thesis
    by (simp add: delete_remove_user_def assms removeUser_def adm json_result_def response_def
             Let_def split: option.splits prod.splits)
qed

lemma delete_remove_user_success:
  assumes "success_b (body (fst (delete_remove_user app req now1 now2)))"
  shows "\<exists>w t. guard (service app) req ''admin'' = Inr w
           \<and> body_userAddress req = Some t \<and> t \<noteq> [] \<and> mockUsers (service app) t \<noteq> None
           \<and> delete_remove_user app req now1 now2 =
               (reply 200 True ''User removed successfully'',
                writeJson (app\<lparr>service := (service app)\<lparr>mockUsers := (mockUsers (service app))(t := None)\<rparr>\<rparr>)
                  (path_join [storage_path app, ''admin-logs'', admin_log_name now2])
                  (AdminLogFile \<lparr>action = ''remove_user'', adminAddress = w, targetAddress = t,
                       role_adm = None, timestamp_adm = now1\<rparr>))"
proof (cases "guard (service app) req ''admin''")
  case (Inl res)
  then have "delete_remove_user app req now1 now2 = (res, app)"
    by (simp add: delete_remove_user_def)
  with assms guard_Inl[OF Inl] show ?thesis by simp
next
  case (Inr w)
  show ?thesis
    using assms unfolding delete_remove_user_admin[OF Inr]
    by (auto simp add: Inr reply_def split: option.splits if_splits)
qed

lemma delete_remove_user_failure:
  assumes "\<not> success_b (body (fst (delete_remove_user app req now1 now2)))"
  shows "snd (delete_remove_user app req now1 now2) = app"
proof (cases "guard (service app) req ''admin''")
  case (Inl res)
  then show ?thesis by (simp add: delete_remove_user_def)
next
  case (Inr w)
  show ?thesis
    using assms unfolding delete_remove_user_admin[OF Inr]
    by (auto simp add: reply_def split: option.splits if_splits)
qed

lemma guard_request:
  "mockUsers svc w = Some required \<Longrightarrow> w \<noteq> [] \<and> startsWith w ''lsk'' \<and> length w = 41 \<Longrightarrow>
   required \<in> set [''admin'', ''auditor'', ''cashier''] \<Longrightarrow> x_wallet_address req = Some w \<Longrightarrow>
   guard svc req required = Inr w"
  by (subst guard_wellformed[of req w]) simp_all

lemma guard_backend_admin:
  "x_wallet_address req = Some defaultAdmin \<Longrightarrow> guard (service backend) req ''admin'' = Inr defaultAdmin"
  using wellformed_initial(1) by (intro guard_request) (simp_all add: backend_def mockUsers_initial)

subsection \<open>Granting a role\<close>

text \<open>
  C3, as stated, fails for the mock service: its addUser checks the actor only. Called by the
  admin with the role ``root'' it succeeds and stores that role for the target.
\<close>

theorem C3_service_stores_any_role_counterexample:
  "mockUsers blockchainService defaultAdmin = Some ''admin''
   \<and> ''root'' \<notin> set [''admin'', ''auditor'', ''cashier'']
   \<and> addUser blockchainService mockCashier ''root'' defaultAdmin
       = (response True ''User added to root role successfully'',
          blockchainService\<lparr>mockUsers := (mockUsers blockchainService)(mockCashier \<mapsto> ''root'')\<rparr>)
   \<and> role_res (hasRole (snd (addUser blockchainService mockCashier ''root'' defaultAdmin))
                 mockCashier ''root'') = Some ''root''"
  by (simp add: addUser_def hasRole_def Let_def mockUsers_initial)

text \<open>
  C3, amended. The module's addUser succeeds only when the actor holds the admin role; for an
  admin actor it succeeds exactly for the roles admin, auditor and cashier, answers ``Invalid
  role specified'' for any other, and on success the target's record is replaced, so that the
  target has the granted role and no other. In the backend the role is validated by the add-user
  route before the service is called: the route succeeds only for an admin caller and one of the
  three roles, answers 400 ``Invalid role. Must be admin, auditor, or cashier'' to an admin caller
  with any other non-empty role, and on success the service maps the target to the granted role.
  The service's addUser itself succeeds exactly when the actor is admin and then maps the target
  to the role string it was given, whatever it is.
\<close>

theorem C3_grant:
  "(success (fst (addUser_mod m t r s now))
      \<longrightarrow> hasRoleInternal m s ''admin'' \<and> r \<in> set [''admin'', ''auditor'', ''cashier''])
   \<and> (hasRoleInternal m s ''admin'' \<and> r \<notin> set [''admin'', ''auditor'', ''cashier'']
      \<longrightarrow> addUser_mod m t r s now = (response False ''Invalid role specified'', m))
   \<and> (hasRoleInternal m s ''admin'' \<and> r \<in> set [''admin'', ''auditor'', ''cashier'']
      \<longrightarrow> success (fst (addUser_mod m t r s now))
          \<and> userRoles (snd (addUser_mod m t r s now))
              = (userRoles m)(t \<mapsto> \<lparr>address = t, role = r, addedBy = s, timestamp_ur = now\<rparr>)
          \<and> (\<forall>q. hasRoleInternal (snd (addUser_mod m t r s now)) t q = (q = r)))
   \<and> success (fst (addUser svc t r s)) = (mockUsers svc s = Some ''admin'')
   \<and> (mockUsers svc s = Some ''admin''
      \<longrightarrow> mockUsers (snd (addUser svc t r s)) = (mockUsers svc)(t \<mapsto> r)
          \<and> role_res (hasRole (snd (addUser svc t r s)) t q) = Some r)
   \<and> (success_b (body (fst (post_add_user app req now1 now2)))
      \<longrightarrow> (\<exists>w t r. x_wallet_address req = Some w \<and> mockUsers (service app) w = Some ''admin''
             \<and> body_userAddress req = Some t \<and> body_role req = Some r
             \<and> r \<in> set [''admin'', ''auditor'', ''cashier'']
             \<and> mockUsers (service (snd (post_add_user app req now1 now2)))
                 = (mockUsers (service app))(t \<mapsto> r)))
   \<and> (guard (service app) req ''admin'' = Inr w
       \<and> body_userAddress req = Some t \<and> t \<noteq> [] \<and> body_role req = Some r \<and> r \<noteq> []
       \<and> r \<notin> set [''admin'', ''auditor'', ''cashier'']
      \<longrightarrow> post_add_user app req now1 now2
            = (reply 400 False ''Invalid role. Must be admin, auditor, or cashier'', app))
   \<and> (guard (service app) req ''admin'' = Inr w
       \<and> body_userAddress req = Some t \<and> startsWith t ''lsk'' \<and> length t = 41
       \<and> body_role req = Some r \<and> r \<in> set [''admin'', ''auditor'', ''cashier'']
      \<longrightarrow> success_b (body (fst (post_add_user app req now1 now2)))
          \<and> mockUsers (service (snd (post_add_user app req now1 now2)))
              = (mockUsers (service app))(t \<mapsto> r))"
proof (intro conjI impI)
  assume "success (fst (addUser_mod m t r s now))"
  then show "hasRoleInternal m s ''admin''" "r \<in> set [''admin'', ''auditor'', ''cashier'']"
    by (auto simp add: addUser_mod_def response_def Let_def split: if_splits)
next
  assume "hasRoleInternal m s ''admin'' \<and> r \<notin> set [''admin'', ''auditor'', ''cashier'']"
  then show "addUser_mod m t r s now = (response False ''Invalid role specified'', m)"
    by (simp add: addUser_mod_def)
next
  assume h: "hasRoleInternal m s ''admin'' \<and> r \<in> set [''admin'', ''auditor'', ''cashier'']"
  then show "success (fst (addUser_mod m t r s now))"
    by (auto simp add: addUser_mod_def response_def Let_def)
  from h show "userRoles (snd (addUser_mod m t r s now))
              = (userRoles m)(t \<mapsto> \<lparr>address = t, role = r, addedBy = s, timestamp_ur = now\<rparr>)"
    by (auto simp add: addUser_mod_def Let_def)
  then show "\<forall>q. hasRoleInternal (snd (addUser_mod m t r s now)) t q = (q = r)"
    by (auto simp add: hasRoleInternal_def)
next
  show "success (fst (addUser svc t r s)) = (mockUsers svc s = Some ''admin'')"
    by (simp add: addUser_def response_def)
next
  assume h: "mockUsers svc s = Some ''admin''"
  then show "mockUsers (snd (addUser svc t r s)) = (mockUsers svc)(t \<mapsto> r)"
    by (simp add: addUser_def)
  from h show "role_res (hasRole (snd (addUser svc t r s)) t q) = Some r"
    by (simp add: addUser_def hasRole_def Let_def)
next
  assume "success_b (body (fst (post_add_user app req now1 now2)))"
  from post_add_user_success[OF this] obtain w t r where
    g: "guard (service app) req ''admin'' = Inr w" and
    b: "body_userAddress req = Some t" "body_role req = Some r"
       "r \<in> set [''admin'', ''auditor'', ''cashier'']" and
    e: "post_add_user app req now1 now2 =
               (reply 200 True (''User added to '' @ r @ '' role successfully''),
                writeJson (app\<lparr>service := (service app)\<lparr>mockUsers := (mockUsers (service app))(t \<mapsto> r)\<rparr>\<rparr>)
                  (path_join [storage_path app, ''admin-logs'', admin_log_name now2])
                  (AdminLogFile \<lparr>action = ''add_user'', adminAddress = w, targetAddress = t,
                       role_adm = Some r, timestamp_adm = now1\<rparr>))"
    by blast
  have "x_wallet_address req = Some w \<and> mockUsers (service app) w = Some ''admin''"
    using guard_Inr[OF g] by simp
  moreover have "mockUsers (service (snd (post_add_user app req now1 now2)))
                 = (mockUsers (service app))(t \<mapsto> r)"
    by (simp add: e)
  ultimately show "\<exists>w t r. x_wallet_address req = Some w \<and> mockUsers (service app) w = Some ''admin''
             \<and> body_userAddress req = Some t \<and> body_role req = Some r
             \<and> r \<in> set [''admin'', ''auditor'', ''cashier'']
             \<and> mockUsers (service (snd (post_add_user app req now1 now2)))
                 = (mockUsers (service app))(t \<mapsto> r)"
    using b by blast
next
  assume "guard (service app) req ''admin'' = Inr w
       \<and> body_userAddress req = Some t \<and> t \<noteq> [] \<and> body_role req = Some r \<and> r \<noteq> []
       \<and> r \<notin> set [''admin'', ''auditor'', ''cashier'']"
  then show "post_add_user app req now1 now2
            = (reply 400 False ''Invalid role. Must be admin, auditor, or cashier'', app)"
    by (simp add: post_add_user_admin[of app req w])
next
  assume h: "guard (service app) req ''admin'' = Inr w
       \<and> body_userAddress req = Some t \<and> startsWith t ''lsk'' \<and> length t = 41
       \<and> body_role req = Some r \<and> r \<in> set [''admin'', ''auditor'', ''cashier'']"
  then have "t \<noteq> []" "r \<noteq> []" by auto
  with h show "success_b (body (fst (post_add_user app req now1 now2)))"
    by (simp add: post_add_user_admin[of app req w] reply_def)
  from h \<open>t \<noteq> []\<close> \<open>r \<noteq> []\<close>
  show "mockUsers (service (snd (post_add_user app req now1 now2)))
              = (mockUsers (service app))(t \<mapsto> r)"
    by (simp add: post_add_user_admin[of app req w])
qed


theorem C3_grant_witness:
  "(let m0 = init new_SecurePOSModule [defaultAdmin] 0;
        granted = addUser_mod m0 mockCashier ''cashier'' defaultAdmin 1
    in success (fst granted) \<and> hasRoleInternal (snd granted) mockCashier ''cashier''
       \<and> addUser_mod m0 mockCashier ''root'' defaultAdmin 1
           = (response False ''Invalid role specified'', m0))
   \<and> mockUsers (snd (addUser blockchainService mockCashier ''auditor'' defaultAdmin)) mockCashier
       = Some ''auditor''
   \<and> post_add_user backend (add_user_request defaultAdmin mockCashier ''root'') 1 2
       = (reply 400 False ''Invalid role. Must be admin, auditor, or cashier'', backend)
   \<and> mockUsers (service (snd (post_add_user backend
         (add_user_request defaultAdmin mockCashier ''auditor'') 1 2))) mockCashier
       = Some ''auditor''"
proof -
  let ?m0 = "init new_SecurePOSModule [defaultAdmin] 0"
  have adm: "hasRoleInternal ?m0 defaultAdmin ''admin''"
    by (simp add: init_def new_SecurePOSModule_def hasRoleInternal_def defaultAdmin_def)
  have g1: "guard (service backend) (add_user_request defaultAdmin mockCashier ''root'') ''admin''
              = Inr defaultAdmin"
    by (rule guard_backend_admin) (simp add: add_user_request_def request_def)
  have g2: "guard (service backend) (add_user_request defaultAdmin mockCashier ''auditor'') ''admin''
              = Inr defaultAdmin"
    by (rule guard_backend_admin) (simp add: add_user_request_def request_def)
  have b1: "body_userAddress (add_user_request defaultAdmin mockCashier ''root'') = Some mockCashier
            \<and> mockCashier \<noteq> [] \<and> body_role (add_user_request defaultAdmin mockCashier ''root'') = Some ''root''"
    using wellformed_initial(3) by (simp add: add_user_request_def)
  have b2: "body_userAddress (add_user_request defaultAdmin mockCashier ''auditor'') = Some mockCashier
            \<and> startsWith mockCashier ''lsk'' \<and> length mockCashier = 41
            \<and> body_role (add_user_request defaultAdmin mockCashier ''auditor'') = Some ''auditor''"
    using wellformed_initial(3) by (simp add: add_user_request_def)
  note valid = C3_grant[where m = ?m0 and t = mockCashier and r = "''cashier''" and s = defaultAdmin
      and now = 1 and svc = blockchainService and app = backend and w = defaultAdmin
      and req = "add_user_request defaultAdmin mockCashier ''auditor''" and ?now1.0 = 1 and ?now2.0 = 2]
  note valid' = C3_grant[where m = ?m0 and t = mockCashier and r = "''auditor''" and s = defaultAdmin
      and now = 1 and svc = blockchainService and app = backend and w = defaultAdmin
      and req = "add_user_request defaultAdmin mockCashier ''auditor''" and ?now1.0 = 1 and ?now2.0 = 2]
  note invalid = C3_grant[where m = ?m0 and t = mockCashier and r = "''root''" and s = defaultAdmin
      and now = 1 and svc = blockchainService and app = backend and w = defaultAdmin
      and req = "add_user_request defaultAdmin mockCashier ''root''" and ?now1.0 = 1 and ?now2.0 = 2]
  show ?thesis
    unfolding Let_def
    using valid valid' invalid adm g1 g2 b1 b2 mockUsers_initial(1)
    by simp
qed

subsection \<open>The admin action log\<close>

lemma admin_log_location:
  "resolve (process_cwd app) (path_join [storage_path app, ''admin-logs'', admin_log_name now])
     = directory app ''admin-logs'' @ [admin_log_name now]"
  by (rule location_in_directory) (simp_all add: plain_directories plain_admin_log_name)

lemma decimal_small: "n < 10 \<Longrightarrow> decimal n = [''0123456789'' ! n]"
  by (simp add: decimal.simps)

text \<open>
  C8, as stated, fails: the entry of a successful call is written to the file
  \<^verbatim>\<open>admin_<clock>.json\<close>, and a file of that name that is already there is replaced. Two
  successful add-user calls that read the same clock value for the file name leave one entry in
  the admin log, the second call's; the entry of the first call is gone.
\<close>

theorem C8_same_clock_counterexample:
  "(let first = post_add_user backend (add_user_request defaultAdmin mockCashier ''auditor'') 1 2;
        second = post_add_user (snd first) (add_user_request defaultAdmin mockAuditor ''cashier'') 3 2
    in success_b (body (fst first)) \<and> success_b (body (fst second))
       \<and> dom (files (snd first)) = {directory backend ''admin-logs'' @ [admin_log_name 2]}
       \<and> files (snd first) (directory backend ''admin-logs'' @ [admin_log_name 2])
           = Some (AdminLogFile \<lparr>action = ''add_user'', adminAddress = defaultAdmin,
                    targetAddress = mockCashier, role_adm = Some ''auditor'', timestamp_adm = 1\<rparr>)
       \<and> dom (files (snd second)) = {directory backend ''admin-logs'' @ [admin_log_name 2]}
       \<and> files (snd second) (directory backend ''admin-logs'' @ [admin_log_name 2])
           = Some (AdminLogFile \<lparr>action = ''add_user'', adminAddress = defaultAdmin,
                    targetAddress = mockAuditor, role_adm = Some ''cashier'', timestamp_adm = 3\<rparr>))"
proof -
  let ?req1 = "add_user_request defaultAdmin mockCashier ''auditor''"
  let ?req2 = "add_user_request defaultAdmin mockAuditor ''cashier''"
  let ?app1 = "writeJson (backend\<lparr>service := (service backend)\<lparr>mockUsers :=
                   (mockUsers (service backend))(mockCashier \<mapsto> ''auditor'')\<rparr>\<rparr>)
                 (path_join [storage_path backend, ''admin-logs'', admin_log_name 2])
                 (AdminLogFile \<lparr>action = ''add_user'', adminAddress = defaultAdmin,
                    targetAddress = mockCashier, role_adm = Some ''auditor'', timestamp_adm = 1\<rparr>)"
  have g1: "guard (service backend) ?req1 ''admin'' = Inr defaultAdmin"
    by (rule guard_backend_admin) (simp add: add_user_request_def request_def)
  have one: "post_add_user backend ?req1 1 2
               = (reply 200 True (''User added to '' @ ''auditor'' @ '' role successfully''), ?app1)"
    using wellformed_initial(3)
    by (subst post_add_user_admin[OF g1]) (simp add: add_user_request_def)
  have g2: "guard (service ?app1) ?req2 ''admin'' = Inr defaultAdmin"
    using wellformed_initial(1) addresses_distinct
    by (intro guard_request)
       (simp_all add: add_user_request_def request_def backend_def mockUsers_initial)
  have two: "post_add_user ?app1 ?req2 3 2
               = (reply 200 True (''User added to '' @ ''cashier'' @ '' role successfully''),
                  writeJson (?app1\<lparr>service := (service ?app1)\<lparr>mockUsers :=
                      (mockUsers (service ?app1))(mockAuditor \<mapsto> ''cashier'')\<rparr>\<rparr>)
                    (path_join [storage_path ?app1, ''admin-logs'', admin_log_name 2])
                    (AdminLogFile \<lparr>action = ''add_user'', adminAddress = defaultAdmin,
                       targetAddress = mockAuditor, role_adm = Some ''cashier'',
                       timestamp_adm = 3\<rparr>))"
    using wellformed_initial(2)
    by (subst post_add_user_admin[OF g2]) (simp add: add_user_request_def)
  have l: "resolve (process_cwd backend)
             (path_join [storage_path backend, ''admin-logs'', admin_log_name 2])
           = directory backend ''admin-logs'' @ [admin_log_name 2]"
    by (rule admin_log_location)
  have e: "files backend = Map.empty" by (simp add: backend_def)
  have f1: "files ?app1 = [directory backend ''admin-logs'' @ [admin_log_name 2] \<mapsto>
              AdminLogFile \<lparr>action = ''add_user'', adminAddress = defaultAdmin,
                targetAddress = mockCashier, role_adm = Some ''auditor'', timestamp_adm = 1\<rparr>]"
    using l e by simp
  have f2: "files (writeJson (?app1\<lparr>service := (service ?app1)\<lparr>mockUsers :=
                      (mockUsers (service ?app1))(mockAuditor \<mapsto> ''cashier'')\<rparr>\<rparr>)
                    (path_join [storage_path ?app1, ''admin-logs'', admin_log_name 2])
                    (AdminLogFile \<lparr>action = ''add_user'', adminAddress = defaultAdmin,
                       targetAddress = mockAuditor, role_adm = Some ''cashier'',
                       timestamp_adm = 3\<rparr>))
            = [directory backend ''admin-logs'' @ [admin_log_name 2] \<mapsto>
              AdminLogFile \<lparr>action = ''add_user'', adminAddress = defaultAdmin,
                targetAddress = mockAuditor, role_adm = Some ''cashier'', timestamp_adm = 3\<rparr>]"
    using l e by simp
  show ?thesis
    unfolding Let_def one snd_conv fst_conv two f1 f2
    by (simp add: reply_def)
qed

text \<open>
  C8, amended. An add-user or remove-user call that succeeds writes its admin action entry
  (action, acting admin, target, role for a grant, time) as the file \<^verbatim>\<open>admin_<clock>.json\<close>
  of the admin-logs directory and changes no other file; when no file of that name exists the
  entry is appended: the files afterwards are those before and this one. A call that fails, an
  authorization failure in particular, leaves the whole state unchanged and so writes nothing.
\<close>

theorem C8_admin_action_log:
  "(success_b (body (fst (post_add_user app req now1 now2)))
      \<longrightarrow> (\<exists>w t r. x_wallet_address req = Some w \<and> body_userAddress req = Some t
             \<and> body_role req = Some r
             \<and> files (snd (post_add_user app req now1 now2))
                 = (files app)(directory app ''admin-logs'' @ [admin_log_name now2] \<mapsto>
                     AdminLogFile \<lparr>action = ''add_user'', adminAddress = w, targetAddress = t,
                                   role_adm = Some r, timestamp_adm = now1\<rparr>))
          \<and> (directory app ''admin-logs'' @ [admin_log_name now2] \<notin> dom (files app)
               \<longrightarrow> dom (files (snd (post_add_user app req now1 now2)))
                     = insert (directory app ''admin-logs'' @ [admin_log_name now2]) (dom (files app))
                   \<and> dom (files (snd (post_add_user app req now1 now2))) \<noteq> dom (files app)))
   \<and> (\<not> success_b (body (fst (post_add_user app req now1 now2)))
      \<longrightarrow> snd (post_add_user app req now1 now2) = app)
   \<and> (success_b (body (fst (delete_remove_user app req now1 now2)))
      \<longrightarrow> (\<exists>w t. x_wallet_address req = Some w \<and> body_userAddress req = Some t
             \<and> files (snd (delete_remove_user app req now1 now2))
                 = (files app)(directory app ''admin-logs'' @ [admin_log_name now2] \<mapsto>
                     AdminLogFile \<lparr>action = ''remove_user'', adminAddress = w, targetAddress = t,
                                   role_adm = None, timestamp_adm = now1\<rparr>))
          \<and> (directory app ''admin-logs'' @ [admin_log_name now2] \<notin> dom (files app)
               \<longrightarrow> dom (files (snd (delete_remove_user app req now1 now2)))
                     = insert (directory app ''admin-logs'' @ [admin_log_name now2]) (dom (files app))
                   \<and> dom (files (snd (delete_remove_user app req now1 now2))) \<noteq> dom (files app)))
   \<and> (\<not> success_b (body (fst (delete_remove_user app req now1 now2)))
      \<longrightarrow> snd (delete_remove_user app req now1 now2) = app)
   \<and> (guard (service app) req ''admin'' = Inl res
      \<longrightarrow> post_add_user app req now1 now2 = (res, app)
          \<and> delete_remove_user app req now1 now2 = (res, app))"
proof (intro conjI impI)
  let ?loc = "directory app ''admin-logs'' @ [admin_log_name now2]"
  assume "success_b (body (fst (post_add_user app req now1 now2)))"
  from post_add_user_success[OF this] obtain w t r where
    g: "guard (service app) req ''admin'' = Inr w" and
    b: "body_userAddress req = Some t" "body_role req = Some r" and
    e: "post_add_user app req now1 now2 =
               (reply 200 True (''User added to '' @ r @ '' role successfully''),
                writeJson (app\<lparr>service := (service app)\<lparr>mockUsers := (mockUsers (service app))(t \<mapsto> r)\<rparr>\<rparr>)
                  (path_join [storage_path app, ''admin-logs'', admin_log_name now2])
                  (AdminLogFile \<lparr>action = ''add_user'', adminAddress = w, targetAddress = t,
                       role_adm = Some r, timestamp_adm = now1\<rparr>))"
    by blast
  have w: "x_wallet_address req = Some w" using guard_Inr[OF g] by simp
  have f: "files (snd (post_add_user app req now1 now2))
                 = (files app)(?loc \<mapsto>
                     AdminLogFile \<lparr>action = ''add_user'', adminAddress = w, targetAddress = t,
                                   role_adm = Some r, timestamp_adm = now1\<rparr>)"
    unfolding e using admin_log_location[of app now2] by simp
  show "\<exists>w t r. x_wallet_address req = Some w \<and> body_userAddress req = Some t
             \<and> body_role req = Some r
             \<and> files (snd (post_add_user app req now1 now2))
                 = (files app)(?loc \<mapsto>
                     AdminLogFile \<lparr>action = ''add_user'', adminAddress = w, targetAddress = t,
                                   role_adm = Some r, timestamp_adm = now1\<rparr>)"
    using w b f by blast
  assume fresh: "?loc \<notin> dom (files app)"
  show "dom (files (snd (post_add_user app req now1 now2))) = insert ?loc (dom (files app))"
    by (simp add: f)
  then show "dom (files (snd (post_add_user app req now1 now2))) \<noteq> dom (files app)"
    using fresh by blast
next
  assume "\<not> success_b (body (fst (post_add_user app req now1 now2)))"
  then show "snd (post_add_user app req now1 now2) = app"
    by (rule post_add_user_failure)
next
  let ?loc = "directory app ''admin-logs'' @ [admin_log_name now2]"
  assume "success_b (body (fst (delete_remove_user app req now1 now2)))"
  from delete_remove_user_success[OF this] obtain w t where
    g: "guard (service app) req ''admin'' = Inr w" and
    b: "body_userAddress req = Some t" and
    e: "delete_remove_user app req now1 now2 =
               (reply 200 True ''User removed successfully'',
                writeJson (app\<lparr>service := (service app)\<lparr>mockUsers := (mockUsers (service app))(t := None)\<rparr>\<rparr>)
                  (path_join [storage_path app, ''admin-logs'', admin_log_name now2])
                  (AdminLogFile \<lparr>action = ''remove_user'', adminAddress = w, targetAddress = t,
                       role_adm = None, timestamp_adm = now1\<rparr>))"
    by blast
  have w: "x_wallet_address req = Some w" using guard_Inr[OF g] by simp
  have f: "files (snd (delete_remove_user app req now1 now2))
                 = (files app)(?loc \<mapsto>
                     AdminLogFile \<lparr>action = ''remove_user'', adminAddress = w, targetAddress = t,
                                   role_adm = None, timestamp_adm = now1\<rparr>)"
    unfolding e using admin_log_location[of app now2] by simp
  show "\<exists>w t. x_wallet_address req = Some w \<and> body_userAddress req = Some t
             \<and> files (snd (delete_remove_user app req now1 now2))
                 = (files app)(?loc \<mapsto>
                     AdminLogFile \<lparr>action = ''remove_user'', adminAddress = w, targetAddress = t,
                                   role_adm = None, timestamp_adm = now1\<rparr>)"
    using w b f by blast
  assume fresh: "?loc \<notin> dom (files app)"
  show "dom (files (snd (delete_remove_user app req now1 now2))) = insert ?loc (dom (files app))"
    by (simp add: f)
  then show "dom (files (snd (delete_remove_user app req now1 now2))) \<noteq> dom (files app)"
    using fresh by blast
next
  assume "\<not> success_b (body (fst (delete_remove_user app req now1 now2)))"
  then show "snd (delete_remove_user app req now1 now2) = app"
    by (rule delete_remove_user_failure)
next
  assume "guard (service app) req ''admin'' = Inl res"
  then show "post_add_user app req now1 now2 = (res, app)"
    "delete_remove_user app req now1 now2 = (res, app)"
    by (simp_all add: post_add_user_def delete_remove_user_def)
qed

theorem C8_admin_action_log_witness:
  "(let done = post_add_user backend (add_user_request defaultAdmin mockCashier ''auditor'') 1 2
    in success_b (body (fst done))
       \<and> dom (files (snd done)) = {directory backend ''admin-logs'' @ [admin_log_name 2]}
       \<and> files (snd done) (directory backend ''admin-logs'' @ [admin_log_name 2])
           = Some (AdminLogFile \<lparr>action = ''add_user'', adminAddress = defaultAdmin,
                     targetAddress = mockCashier, role_adm = Some ''auditor'', timestamp_adm = 1\<rparr>))
   \<and> (let done = delete_remove_user backend (remove_user_request defaultAdmin mockCashier) 3 4
      in success_b (body (fst done))
         \<and> dom (files (snd done)) = {directory backend ''admin-logs'' @ [admin_log_name 4]}
         \<and> files (snd done) (directory backend ''admin-logs'' @ [admin_log_name 4])
             = Some (AdminLogFile \<lparr>action = ''remove_user'', adminAddress = defaultAdmin,
                       targetAddress = mockCashier, role_adm = None, timestamp_adm = 3\<rparr>))
   \<and> (let denied = post_add_user backend (add_user_request mockCashier mockCashier ''admin'') 5 6
      in \<not> success_b (body (fst denied)) \<and> snd denied = backend)
   \<and> (let denied = delete_remove_user backend (remove_user_request mockAuditor defaultAdmin) 7 8
      in \<not> success_b (body (fst denied)) \<and> snd denied = backend)
   \<and> admin_log_name 2 = ''admin_2.json''"
proof -
  let ?add = "add_user_request defaultAdmin mockCashier ''auditor''"
  let ?del = "remove_user_request defaultAdmin mockCashier"
  let ?bad_add = "add_user_request mockCashier mockCashier ''admin''"
  let ?bad_del = "remove_user_request mockAuditor defaultAdmin"
  have g1: "guard (service backend) ?add ''admin'' = Inr defaultAdmin"
    by (rule guard_backend_admin) (simp add: add_user_request_def request_def)
  have g2: "guard (service backend) ?del ''admin'' = Inr defaultAdmin"
    by (rule guard_backend_admin) (simp add: remove_user_request_def request_def)
  have s1: "success_b (body (fst (post_add_user backend ?add 1 2)))"
    using wellformed_initial(3)
    by (subst post_add_user_admin[OF g1]) (simp add: add_user_request_def reply_def)
  have s2: "success_b (body (fst (delete_remove_user backend ?del 3 4)))"
    using wellformed_initial(3) mockUsers_initial(3)
    by (subst delete_remove_user_admin[OF g2])
       (simp add: remove_user_request_def reply_def backend_def)
  have f1: "\<not> success_b (body (fst (post_add_user backend ?bad_add 5 6)))"
  proof -
    have "guard (service backend) ?bad_add ''admin''
            = Inl (reply 403 False ''Unauthorized: admin role required'')"
      using wellformed_initial(3) mockUsers_initial(3)
      by (subst guard_wellformed[of _ mockCashier])
         (simp_all add: add_user_request_def request_def backend_def)
    then show ?thesis by (simp add: post_add_user_def reply_def)
  qed
  have f2: "\<not> success_b (body (fst (delete_remove_user backend ?bad_del 7 8)))"
  proof -
    have "guard (service backend) ?bad_del ''admin''
            = Inl (reply 403 False ''Unauthorized: admin role required'')"
      using wellformed_initial(2) mockUsers_initial(2)
      by (subst guard_wellformed[of _ mockAuditor])
         (simp_all add: remove_user_request_def request_def backend_def)
    then show ?thesis by (simp add: delete_remove_user_def reply_def)
  qed
  have n: "admin_log_name 2 = ''admin_2.json''"
    by (simp add: admin_log_name_def decimal_small)
  have e: "files backend = Map.empty" by (simp add: backend_def)
  note a = C8_admin_action_log[where app = backend and req = ?add and ?now1.0 = 1 and ?now2.0 = 2]
  note b = C8_admin_action_log[where app = backend and req = ?del and ?now1.0 = 3 and ?now2.0 = 4]
  note c = C8_admin_action_log[where app = backend and req = ?bad_add and ?now1.0 = 5 and ?now2.0 = 6]
  note d = C8_admin_action_log[where app = backend and req = ?bad_del and ?now1.0 = 7 and ?now2.0 = 8]
  have a': "files (snd (post_add_user backend ?add 1 2))
              = [directory backend ''admin-logs'' @ [admin_log_name 2] \<mapsto>
                   AdminLogFile \<lparr>action = ''add_user'', adminAddress = defaultAdmin,
                     targetAddress = mockCashier, role_adm = Some ''auditor'', timestamp_adm = 1\<rparr>]"
    using a s1 by (auto simp add: e add_user_request_def request_def)
  have b': "files (snd (delete_remove_user backend ?del 3 4))
              = [directory backend ''admin-logs'' @ [admin_log_name 4] \<mapsto>
                   AdminLogFile \<lparr>action = ''remove_user'', adminAddress = defaultAdmin,
                       targetAddress = mockCashier, role_adm = None, timestamp_adm = 3\<rparr>]"
    using b s2 by (auto simp add: e remove_user_request_def request_def)
  show ?thesis
    unfolding Let_def a' b' using s1 s2 f1 f2 c d n by simp
qed

subsection \<open>The sales ledger and the upload routes, case by case\<close>

lemma dom_service_step:
  "dom (mockSalesRecords (service_step svc c)) =
     dom (mockSalesRecords svc) \<union> set (submitted_keys svc [c])"
  by (cases c) (auto simp add: submitSalesHash_def addUser_def removeUser_def Let_def response_def)

lemma service_run_Cons: "service_run svc (c # cs) = service_run (service_step svc c) cs"
  by (simp add: service_run_def)

lemma dom_service_run:
  "dom (mockSalesRecords (service_run svc cs)) =
     dom (mockSalesRecords svc) \<union> set (submitted_keys svc cs)"
proof (induction cs arbitrary: svc)
  case Nil
  show ?case by (simp add: service_run_def)
next
  case (Cons c cs)
  have "dom (mockSalesRecords (service_run svc (c # cs)))
          = dom (mockSalesRecords (service_step svc c)) \<union> set (submitted_keys (service_step svc c) cs)"
    by (simp only: service_run_Cons Cons.IH)
  also have "\<dots> = dom (mockSalesRecords svc) \<union> set (submitted_keys svc [c])
                    \<union> set (submitted_keys (service_step svc c) cs)"
    by (simp only: dom_service_step)
  also have "\<dots> = dom (mockSalesRecords svc) \<union> set (submitted_keys svc (c # cs))"
    by (auto split: service_call.splits)
  finally show ?case .
qed

lemma getSalesHash_cases:
  "getSalesHash svc store day =
     (case mockSalesRecords svc (record_key store day) of
        None \<Rightarrow> response False ''No sales record found''
      | Some rec \<Rightarrow> (response True ''Record found'')\<lparr>data := Some rec\<rparr>)"
  by (simp add: getSalesHash_def Let_def)

lemma post_verify_auditor:
  assumes "guard (service app) req ''auditor'' = Inr w"
  shows "post_verify app req now1 now2 =
     (case upload req of
        UploadRefused \<Rightarrow> (reply 500 False ''Internal server error'', app)
      | NoFile \<Rightarrow> (reply 400 False ''No file uploaded for verification'', app)
      | Uploaded file \<Rightarrow>
          (case (body_storeId req, body_date req) of
             (Some store, Some day) \<Rightarrow>
               if store = [] \<or> day = []
               then (reply 400 False ''Store ID and date are required'', app)
               else
                 (case mockSalesRecords (service app) (record_key store day) of
                    None \<Rightarrow>
                      (reply 404 False ''No sales record found for the specified store and date'',
                       app)
                  | Some rec \<Rightarrow>
                      (\<lparr>status = 200,
                        body = \<lparr>success_b = True,
                                 message_b =
                                   (if sha256_hex (buffer file) = hash rec
                                    then ''File verification successful''
                                    else ''File verification failed''),
                                 data_b = VerifyData store day (sha256_hex (buffer file) = hash rec)
                                            (sha256_hex (buffer file)) (hash rec) (submittedBy rec)
                                            (timestamp rec) w now1\<rparr>\<rparr>,
                       writeJson app
                         (path_join [storage_path app, ''audit-logs'',
                                     audit_log_name store day now2])
                         (AuditLogFile
                           \<lparr>auditedBy = w, storeId_al = store, date_al = day,
                            uploadedHash = sha256_hex (buffer file), storedHash = hash rec,
                            hashMatch = (sha256_hex (buffer file) = hash rec),
                            filename_al = originalname file, fileSize = size file,
                            timestamp_al = now1, originalSubmission = rec\<rparr>)))
           | _ \<Rightarrow> (reply 400 False ''Store ID and date are required'', app)))"
  by (simp add: post_verify_def assms getSalesHash_cases response_def Let_def
           split: option.splits prod.splits Upload.splits)

lemma post_verify_keeps_service:
  "service (snd (post_verify app req now1 now2)) = service app"
proof (cases "guard (service app) req ''auditor''")
  case (Inl res)
  then show ?thesis by (simp add: post_verify_def)
next
  case (Inr w)
  show ?thesis
    unfolding post_verify_auditor[OF Inr]
    by (simp split: option.splits prod.splits Upload.splits)
qed

lemma post_verify_missing:
  assumes "body_storeId req = Some store" "body_date req = Some day"
      and "mockSalesRecords (service app) (record_key store day) = None"
  shows "\<not> success_b (body (fst (post_verify app req now1 now2)))
         \<and> snd (post_verify app req now1 now2) = app"
proof (cases "guard (service app) req ''auditor''")
  case (Inl res)
  then have "post_verify app req now1 now2 = (res, app)" by (simp add: post_verify_def)
  with guard_Inl[OF Inl] show ?thesis by simp
next
  case (Inr w)
  show ?thesis
    unfolding post_verify_auditor[OF Inr]
    using assms by (simp add: reply_def split: Upload.splits)
qed







lemma guard_backend_auditor:
  "x_wallet_address req = Some mockAuditor \<Longrightarrow> mockUsers (service app) = mockUsers blockchainService
     \<Longrightarrow> guard (service app) req ''auditor'' = Inr mockAuditor"
  using wellformed_initial(2) by (intro guard_request) (simp_all add: mockUsers_initial)



text \<open>The 56-byte message of the standard's examples, which takes two blocks.\<close>

lemma sha256_hex_two_blocks:
  "sha256_hex
     [97, 98, 99, 100, 98, 99, 100, 101, 99, 100, 101, 102, 100, 101, 102, 103, 101,
      102, 103, 104, 102, 103, 104, 105, 103, 104, 105, 106, 104, 105, 106, 107,
      105, 106, 107, 108, 106, 107, 108, 109, 107, 108, 109, 110, 108, 109, 110,
      111, 109, 110, 111, 112, 110, 111, 112, 113]
   = ''248d6a61d20638b8e5c026930c3e6039a33ce45964ff2167f6ecedd419db06c1''"
  by code_simp




lemma post_submit_sales_cashier:
  assumes "guard (service app) req ''cashier'' = Inr c"
  shows "post_submit_sales app req now1 now2 =
     (case upload req of
        UploadRefused \<Rightarrow> (reply 500 False ''Internal server error'', app)
      | NoFile \<Rightarrow> (reply 400 False ''No file uploaded'', app)
      | Uploaded f \<Rightarrow>
          (case (body_storeId req, body_date req) of
             (Some store, Some day) \<Rightarrow>
               if store = [] \<or> day = []
               then (reply 400 False ''Store ID and date are required'', app)
               else if mockSalesRecords (service app) (record_key store day) \<noteq> None
               then (reply 400 False ''Sales record already exists for this date'', app)
               else
                 (\<lparr>status = 200,
                   body = \<lparr>success_b = True, message_b = ''Sales file submitted successfully'',
                            data_b = SubmitData store day (sha256_hex (buffer f)) (filename f)
                                       (size f)\<rparr>\<rparr>,
                  writeJson
                    (app\<lparr>service := (service app)\<lparr>mockSalesRecords :=
                        (mockSalesRecords (service app))(record_key store day \<mapsto>
                          \<lparr>storeId = store, date = day, hash = sha256_hex (buffer f),
                           timestamp = now1, submittedBy = c\<rparr>)\<rparr>\<rparr>)
                    (path_join [storage_path app, ''metadata'', metadata_name store day])
                    (MetadataFile
                      \<lparr>storeId_md = store, date_md = day, hash_md = sha256_hex (buffer f),
                       filename_md = filename f, originalName_md = originalname f,
                       size_md = size f, submittedBy_md = c, timestamp_md = now2\<rparr>))
           | _ \<Rightarrow> (reply 400 False ''Store ID and date are required'', app)))"
proof -
  have c: "mockUsers (service app) c = Some ''cashier''"
    using guard_Inr[OF assms] by simp
  show ?thesis
    by (simp add: post_submit_sales_def assms submitSalesHash_def c json_result_def response_def
          Let_def reply_def split: option.splits prod.splits Upload.splits)
qed

lemma audit_log_location:
  assumes "CHR ''/'' \<notin> set store" "CHR ''/'' \<notin> set day"
  shows "resolve (process_cwd app)
           (path_join [storage_path app, ''audit-logs'', audit_log_name store day now])
         = directory app ''audit-logs'' @ [audit_log_name store day now]"
  by (rule location_in_directory) (simp_all add: plain_directories plain_audit_log_name assms)

lemma submitted_keys_pairs:
  "submitted_keys svc cs = map (\<lambda>p. record_key (fst p) (snd p)) (submitted_pairs svc cs)"
  by (induction cs arbitrary: svc) (simp_all split: service_call.splits)

lemma colon_split:
  "CHR '':'' \<notin> set a \<Longrightarrow> CHR '':'' \<notin> set c \<Longrightarrow> a @ CHR '':'' # b = c @ CHR '':'' # d
     \<Longrightarrow> a = c \<and> b = d"
proof (induction a arbitrary: c)
  case Nil
  then show ?case by (cases c) simp_all
next
  case (Cons x xs)
  then show ?case by (cases c) auto
qed

lemma record_key_inj:
  assumes "CHR '':'' \<notin> set a" "CHR '':'' \<notin> set c" "record_key a b = record_key c d"
  shows "a = c \<and> b = d"
  using assms by (intro colon_split) (simp_all add: record_key_def)

subsection \<open>Verification against a missing record\<close>

lemma guard_backend_cashier:
  "x_wallet_address req = Some mockCashier \<Longrightarrow> mockUsers (service app) = mockUsers blockchainService
     \<Longrightarrow> guard (service app) req ''cashier'' = Inr mockCashier"
  using wellformed_initial(3) by (intro guard_request) (simp_all add: mockUsers_initial)

lemma unsubmitted_pair_key:
  assumes "CHR '':'' \<notin> set store"
      and "\<forall>p \<in> set (submitted_pairs svc calls). CHR '':'' \<notin> set (fst p)"
      and "(store, day) \<notin> set (submitted_pairs svc calls)"
  shows "record_key store day \<notin> set (submitted_keys svc calls)"
proof
  assume "record_key store day \<in> set (submitted_keys svc calls)"
  then obtain p where p: "p \<in> set (submitted_pairs svc calls)"
    and k: "record_key store day = record_key (fst p) (snd p)"
    unfolding submitted_keys_pairs by auto
  from assms(2) p have "CHR '':'' \<notin> set (fst p)" by blast
  from record_key_inj[OF assms(1) this k] have "p = (store, day)" by simp
  with p assms(3) show False by simp
qed

text \<open>
  C6, as stated, fails: the ledger is keyed by the string \<^verbatim>\<open>storeId:date\<close>, and two different
  pairs of store id and date can give one key string. After the one submit for store
  \<^verbatim>\<open>S1:2024\<close> and date \<^verbatim>\<open>01\<close>, a verification for store \<^verbatim>\<open>S1\<close> and date \<^verbatim>\<open>2024:01\<close>, a pair for
  which no submit was ever made, answers 200 with success and writes an audit event.
\<close>

theorem C6_key_collision_counterexample:
  "(let app = snd (post_submit_sales backend
                     (upload_request mockCashier ''S1:2024'' ''01'' (sales_file [97, 98, 99])) 5 6);
        done = post_verify app
                 (upload_request mockAuditor ''S1'' ''2024:01'' (sales_file [97, 98, 99])) 7 8
    in (''S1'', ''2024:01'') \<noteq> (''S1:2024'', ''01'')
       \<and> dom (mockSalesRecords (service app)) = {record_key ''S1:2024'' ''01''}
       \<and> status (fst done) = 200
       \<and> success_b (body (fst done))
       \<and> files app (resolve (process_cwd app)
                      (path_join [storage_path app, ''audit-logs'',
                                  audit_log_name ''S1'' ''2024:01'' 8])) = None
       \<and> files (snd done) (resolve (process_cwd app)
                      (path_join [storage_path app, ''audit-logs'',
                                  audit_log_name ''S1'' ''2024:01'' 8]))
           = Some (AuditLogFile
                \<lparr>auditedBy = mockAuditor, storeId_al = ''S1'', date_al = ''2024:01'',
                 uploadedHash = sha256_hex [97, 98, 99], storedHash = sha256_hex [97, 98, 99],
                 hashMatch = True, filename_al = ''sales.csv'', fileSize = 3, timestamp_al = 7,
                 originalSubmission =
                   \<lparr>storeId = ''S1:2024'', date = ''01'', hash = sha256_hex [97, 98, 99],
                    timestamp = 5, submittedBy = mockCashier\<rparr>\<rparr>))"
proof -
  let ?sub = "upload_request mockCashier ''S1:2024'' ''01'' (sales_file [97, 98, 99])"
  let ?req = "upload_request mockAuditor ''S1'' ''2024:01'' (sales_file [97, 98, 99])"
  let ?rec = "\<lparr>storeId = ''S1:2024'', date = ''01'', hash = sha256_hex [97, 98, 99],
               timestamp = 5, submittedBy = mockCashier\<rparr>"
  let ?app = "writeJson
                (backend\<lparr>service := (service backend)\<lparr>mockSalesRecords :=
                   (mockSalesRecords (service backend))(record_key ''S1:2024'' ''01'' \<mapsto> ?rec)\<rparr>\<rparr>)
                (path_join [storage_path backend, ''metadata'', metadata_name ''S1:2024'' ''01''])
                (MetadataFile
                   \<lparr>storeId_md = ''S1:2024'', date_md = ''01'', hash_md = sha256_hex [97, 98, 99],
                    filename_md = ''1_sales.csv'', originalName_md = ''sales.csv'',
                    size_md = 3, submittedBy_md = mockCashier, timestamp_md = 6\<rparr>)"
  have g: "guard (service backend) ?sub ''cashier'' = Inr mockCashier"
    by (rule guard_backend_cashier) (simp_all add: upload_request_def request_def backend_def)
  have a: "snd (post_submit_sales backend ?sub 5 6) = ?app"
    unfolding post_submit_sales_cashier[OF g]
    by (simp add: upload_request_def request_def backend_def blockchainService_def
          sales_file_def numeral_3_eq_3)
  have k: "record_key ''S1'' ''2024:01'' = record_key ''S1:2024'' ''01''"
    by (simp add: record_key_def)
  have s: "mockSalesRecords (service ?app) (record_key ''S1'' ''2024:01'') = Some ?rec"
    unfolding k by simp
  have d: "dom (mockSalesRecords (service ?app)) = {record_key ''S1:2024'' ''01''}"
    by (simp add: backend_def blockchainService_def)
  have ga: "guard (service ?app) ?req ''auditor'' = Inr mockAuditor"
    by (rule guard_backend_auditor) (simp_all add: upload_request_def request_def backend_def)
  have loc: "resolve (process_cwd ?app)
               (path_join [storage_path ?app, ''audit-logs'', audit_log_name ''S1'' ''2024:01'' 8])
             = directory backend ''audit-logs'' @ [audit_log_name ''S1'' ''2024:01'' 8]"
    using audit_log_location[of "''S1''" "''2024:01''" ?app 8] by simp
  have mloc: "resolve (process_cwd backend)
               (path_join [storage_path backend, ''metadata'', metadata_name ''S1:2024'' ''01''])
             = directory backend ''metadata'' @ [metadata_name ''S1:2024'' ''01'']"
    by (rule location_in_directory) (simp_all add: plain_directories plain_def metadata_name_def)
  have n: "metadata_name ''S1:2024'' ''01'' \<noteq> audit_log_name ''S1'' ''2024:01'' 8"
    by (simp add: metadata_name_def audit_log_name_def)
  have e: "files backend = Map.empty" by (simp add: backend_def)
  have fa: "files ?app (directory backend ''audit-logs'' @ [audit_log_name ''S1'' ''2024:01'' 8]) = None"
    using n e by (simp add: mloc)
  have v: "post_verify ?app ?req 7 8 =
             (\<lparr>status = 200,
               body = \<lparr>success_b = True, message_b = ''File verification successful'',
                        data_b = VerifyData ''S1'' ''2024:01'' True (sha256_hex [97, 98, 99])
                                   (sha256_hex [97, 98, 99]) mockCashier 5 mockAuditor 7\<rparr>\<rparr>,
              writeJson ?app
                (path_join [storage_path ?app, ''audit-logs'', audit_log_name ''S1'' ''2024:01'' 8])
                (AuditLogFile
                  \<lparr>auditedBy = mockAuditor, storeId_al = ''S1'', date_al = ''2024:01'',
                   uploadedHash = sha256_hex [97, 98, 99], storedHash = sha256_hex [97, 98, 99],
                   hashMatch = True, filename_al = ''sales.csv'', fileSize = 3, timestamp_al = 7,
                   originalSubmission = ?rec\<rparr>))"
    unfolding post_verify_auditor[OF ga] using s
    by (simp add: upload_request_def request_def sales_file_def numeral_3_eq_3)
  show ?thesis
    unfolding Let_def a v fst_conv snd_conv writeJson_fields(4) loc
    using d fa by simp
qed

text \<open>
  C6, amended. A verification for a store id and a date under whose key string
  \<^verbatim>\<open>storeId:date\<close> the ledger holds no record never succeeds and leaves the whole state as it
  was: no sales record is created and no audit event is written. For an auditor whose request
  carries a file, a store id and a date, the answer is 404 ``No sales record found for the
  specified store and date''. The verify route never changes the ledger. Since the service
  started, the ledger holds a record under a key string exactly when a submit has succeeded for
  a pair with that key string. Hence, when no store id contains a colon, a verification for a
  pair of store id and date for which no submit has succeeded fails in this way.
\<close>

theorem C6_verify_missing_record:
  "(body_storeId req = Some store \<and> body_date req = Some day
      \<and> mockSalesRecords (service app) (record_key store day) = None
     \<longrightarrow> \<not> success_b (body (fst (post_verify app req now1 now2)))
         \<and> snd (post_verify app req now1 now2) = app)
   \<and> (guard (service app) req ''auditor'' = Inr w \<and> upload req = Uploaded f
       \<and> body_storeId req = Some store \<and> store \<noteq> [] \<and> body_date req = Some day \<and> day \<noteq> []
       \<and> mockSalesRecords (service app) (record_key store day) = None
     \<longrightarrow> post_verify app req now1 now2
           = (reply 404 False ''No sales record found for the specified store and date'', app))
   \<and> (mockSalesRecords svc (record_key store day) = None
     \<longrightarrow> getSalesHash svc store day = response False ''No sales record found'')
   \<and> service (snd (post_verify app req now1 now2)) = service app
   \<and> (mockSalesRecords (service_run blockchainService calls) (record_key store day) = None)
       = (record_key store day \<notin> set (submitted_keys blockchainService calls))
   \<and> submitted_keys blockchainService calls
       = map (\<lambda>p. record_key (fst p) (snd p)) (submitted_pairs blockchainService calls)
   \<and> (CHR '':'' \<notin> set store
       \<and> (\<forall>p \<in> set (submitted_pairs blockchainService calls). CHR '':'' \<notin> set (fst p))
       \<and> (store, day) \<notin> set (submitted_pairs blockchainService calls)
       \<and> service app = service_run blockchainService calls
       \<and> body_storeId req = Some store \<and> body_date req = Some day
     \<longrightarrow> \<not> success_b (body (fst (post_verify app req now1 now2)))
         \<and> snd (post_verify app req now1 now2) = app
         \<and> mockSalesRecords (service_run blockchainService calls) (record_key store day) = None)"
proof -
  have ledger: "(mockSalesRecords (service_run blockchainService calls) (record_key store day) = None)
       = (record_key store day \<notin> set (submitted_keys blockchainService calls))"
  proof -
    have "dom (mockSalesRecords blockchainService) = {}"
      by (simp add: blockchainService_def)
    then have "dom (mockSalesRecords (service_run blockchainService calls))
                 = set (submitted_keys blockchainService calls)"
      by (simp add: dom_service_run)
    then show ?thesis by (metis domIff)
  qed
  show ?thesis
  proof (intro conjI impI)
    assume h: "body_storeId req = Some store \<and> body_date req = Some day
        \<and> mockSalesRecords (service app) (record_key store day) = None"
    then show "\<not> success_b (body (fst (post_verify app req now1 now2)))"
      using post_verify_missing[of req store day app now1 now2] by simp
    from h show "snd (post_verify app req now1 now2) = app"
      using post_verify_missing[of req store day app now1 now2] by simp
  next
    assume "guard (service app) req ''auditor'' = Inr w \<and> upload req = Uploaded f
         \<and> body_storeId req = Some store \<and> store \<noteq> [] \<and> body_date req = Some day \<and> day \<noteq> []
         \<and> mockSalesRecords (service app) (record_key store day) = None"
    then show "post_verify app req now1 now2
             = (reply 404 False ''No sales record found for the specified store and date'', app)"
      by (simp add: post_verify_auditor[of app req w])
  next
    assume "mockSalesRecords svc (record_key store day) = None"
    then show "getSalesHash svc store day = response False ''No sales record found''"
      by (simp add: getSalesHash_cases)
  next
    show "service (snd (post_verify app req now1 now2)) = service app"
      by (rule post_verify_keeps_service)
  next
    show "(mockSalesRecords (service_run blockchainService calls) (record_key store day) = None)
       = (record_key store day \<notin> set (submitted_keys blockchainService calls))"
      by (rule ledger)
  next
    show "submitted_keys blockchainService calls
       = map (\<lambda>p. record_key (fst p) (snd p)) (submitted_pairs blockchainService calls)"
      by (rule submitted_keys_pairs)
  next
    assume h: "CHR '':'' \<notin> set store
       \<and> (\<forall>p \<in> set (submitted_pairs blockchainService calls). CHR '':'' \<notin> set (fst p))
       \<and> (store, day) \<notin> set (submitted_pairs blockchainService calls)
       \<and> service app = service_run blockchainService calls
       \<and> body_storeId req = Some store \<and> body_date req = Some day"
    then have "record_key store day \<notin> set (submitted_keys blockchainService calls)"
      by (intro unsubmitted_pair_key) simp_all
    with ledger
    have n: "mockSalesRecords (service_run blockchainService calls) (record_key store day) = None"
      by simp
    then show "mockSalesRecords (service_run blockchainService calls) (record_key store day) = None" .
    from n h have m: "mockSalesRecords (service app) (record_key store day) = None" by simp
    from h m show "\<not> success_b (body (fst (post_verify app req now1 now2)))"
      using post_verify_missing[of req store day app now1 now2] by simp
    from h m show "snd (post_verify app req now1 now2) = app"
      using post_verify_missing[of req store day app now1 now2] by simp
  qed
qed

theorem C6_verify_missing_record_witness:
  "post_verify backend (upload_request mockAuditor ''S1'' ''2024-01-01'' (sales_file [97, 98, 99])) 1 2
     = (reply 404 False ''No sales record found for the specified store and date'', backend)
   \<and> getSalesHash blockchainService ''S1'' ''2024-01-01'' = response False ''No sales record found''
   \<and> submitted_pairs blockchainService
        [AddUser ''x'' ''cashier'' defaultAdmin,
         SubmitSalesHash ''S2'' ''2024-01-01'' ''aa'' mockCashier 3,
         SubmitSalesHash ''S1'' ''2024-01-01'' ''aa'' mockAuditor 4]
       = [(''S2'', ''2024-01-01'')]
   \<and> mockSalesRecords
        (service_run blockchainService
           [AddUser ''x'' ''cashier'' defaultAdmin,
            SubmitSalesHash ''S2'' ''2024-01-01'' ''aa'' mockCashier 3,
            SubmitSalesHash ''S1'' ''2024-01-01'' ''aa'' mockAuditor 4])
        (record_key ''S1'' ''2024-01-01'') = None
   \<and> (let app = backend\<lparr>service := service_run blockchainService
                      [AddUser ''x'' ''cashier'' defaultAdmin,
                       SubmitSalesHash ''S2'' ''2024-01-01'' ''aa'' mockCashier 3,
                       SubmitSalesHash ''S1'' ''2024-01-01'' ''aa'' mockAuditor 4]\<rparr>;
           again = post_verify app
                    (upload_request mockAuditor ''S1'' ''2024-01-01'' (sales_file [97, 98, 99])) 5 6
       in \<not> success_b (body (fst again)) \<and> snd again = app)"
proof -
  let ?req = "upload_request mockAuditor ''S1'' ''2024-01-01'' (sales_file [97, 98, 99])"
  let ?calls = "[AddUser ''x'' ''cashier'' defaultAdmin,
            SubmitSalesHash ''S2'' ''2024-01-01'' ''aa'' mockCashier 3,
            SubmitSalesHash ''S1'' ''2024-01-01'' ''aa'' mockAuditor 4]"
  let ?app = "backend\<lparr>service := service_run blockchainService ?calls\<rparr>"
  have g: "guard (service backend) ?req ''auditor'' = Inr mockAuditor"
    by (rule guard_backend_auditor) (simp_all add: upload_request_def request_def backend_def)
  have r: "upload ?req = Uploaded (sales_file [97, 98, 99])
       \<and> body_storeId ?req = Some ''S1'' \<and> ''S1'' \<noteq> [] \<and> body_date ?req = Some ''2024-01-01''
       \<and> ''2024-01-01'' \<noteq> []
       \<and> mockSalesRecords (service backend) (record_key ''S1'' ''2024-01-01'') = None"
    by (simp add: upload_request_def request_def backend_def blockchainService_def)
  have p: "submitted_pairs blockchainService ?calls = [(''S2'', ''2024-01-01'')]"
    by (simp add: submitSalesHash_def addUser_def blockchainService_def record_key_def Let_def
          response_def mockCashier_def mockAuditor_def defaultAdmin_def)
  have one: "post_verify backend ?req 1 2
     = (reply 404 False ''No sales record found for the specified store and date'', backend)
   \<and> getSalesHash blockchainService ''S1'' ''2024-01-01'' = response False ''No sales record found''"
    using C6_verify_missing_record[where app = backend and req = ?req and store = "''S1''"
            and day = "''2024-01-01''" and w = mockAuditor and f = "sales_file [97, 98, 99]"
            and ?now1.0 = 1 and ?now2.0 = 2 and svc = blockchainService and calls = "[]"]
          g r
    by (simp add: backend_def)
  have two: "\<not> success_b (body (fst (post_verify ?app ?req 5 6)))
         \<and> snd (post_verify ?app ?req 5 6) = ?app
         \<and> mockSalesRecords (service_run blockchainService ?calls)
             (record_key ''S1'' ''2024-01-01'') = None"
    using C6_verify_missing_record[where app = ?app and req = ?req and store = "''S1''"
            and day = "''2024-01-01''" and w = mockAuditor and f = "sales_file [97, 98, 99]"
            and ?now1.0 = 5 and ?now2.0 = 6 and svc = blockchainService and calls = ?calls]
    unfolding p
    by (simp add: upload_request_def request_def)
  show ?thesis
    unfolding Let_def using one two p by simp
qed






subsection \<open>Verification against an existing record\<close>


text \<open>
  The file name of an audit event is resolved as a path: a store id with a slash makes it name
  a file elsewhere, here in the admin-logs directory, and two pairs of store id and date can
  give one file name. The statements below that place the event in the audit-logs directory
  are therefore made for store ids and dates without a slash.
\<close>

lemma audit_log_outside_directory:
  "resolve (process_cwd backend)
     (path_join [storage_path backend, ''audit-logs'',
                 audit_log_name ''x/../../admin-logs/a'' ''d'' 8])
     = directory backend ''admin-logs'' @ [''a_d_8.json'']
   \<and> audit_log_name ''a_b'' ''c'' 8 = audit_log_name ''a'' ''b_c'' 8"
proof -
  have n: "audit_log_name ''x/../../admin-logs/a'' ''d'' 8 = ''audit_x/../../admin-logs/a_d_8.json''"
    by (simp add: audit_log_name_def decimal_small)
  have s: "storage_path backend = ''./storage''"
    by (simp add: storage_path_def backend_def)
  have c: "process_cwd backend = [''srv'', ''securepos'', ''backend'']"
    by (simp add: backend_def)
  have a: "resolve [''srv'', ''securepos'', ''backend'']
          (path_join [''./storage'', ''audit-logs'', ''audit_x/../../admin-logs/a_d_8.json''])
        = [''srv'', ''securepos'', ''backend'', ''storage'', ''admin-logs'', ''a_d_8.json'']"
    by (simp add: resolve_def path_join_def normalize_def normalize_step_def resolve_step_def
          Let_def)
  have b: "resolve [''srv'', ''securepos'', ''backend'']
            (path_join [''./storage'', ''admin-logs''])
        = [''srv'', ''securepos'', ''backend'', ''storage'', ''admin-logs'']"
    by (simp add: resolve_def path_join_def normalize_def normalize_step_def resolve_step_def
          Let_def)
  show ?thesis
    unfolding directory_def n s c a b by (simp add: audit_log_name_def)
qed




subsection \<open>The digest\<close>



subsection \<open>Failure modes of the role check\<close>

lemma stranger_wellformed:
  "stranger \<noteq> [] \<and> startsWith stranger ''lsk'' \<and> length stranger = 41"
  by (simp add: stranger_def startsWith_def)

lemma stranger_no_role: "mockUsers blockchainService stranger = None"
  by (simp add: blockchainService_def stranger_def)

lemma guard_missing:
  "x_wallet_address req = None \<or> x_wallet_address req = Some []
     \<Longrightarrow> guard svc req required = Inl (reply 401 False ''Wallet address required'')"
  by (auto simp add: guard_def authMiddleware_def)

lemma guard_malformed:
  "x_wallet_address req = Some w \<Longrightarrow> w \<noteq> [] \<Longrightarrow> \<not> startsWith w ''lsk'' \<or> length w \<noteq> 41
     \<Longrightarrow> guard svc req required = Inl (reply 401 False ''Invalid wallet address format'')"
  by (auto simp add: guard_def authMiddleware_def)

lemma guard_401:
  assumes "guard svc req required = Inl res" "status res = 401"
  shows "x_wallet_address req = None
         \<or> (\<exists>a. x_wallet_address req = Some a
                \<and> (a = [] \<or> \<not> startsWith a ''lsk'' \<or> length a \<noteq> 41))"
proof (cases "x_wallet_address req")
  case None
  then show ?thesis by simp
next
  case (Some a)
  show ?thesis
  proof (rule ccontr)
    assume "\<not> ?thesis"
    with Some have w: "a \<noteq> []" "startsWith a ''lsk''" "length a = 41" by simp_all
    from assms show False
      unfolding guard_def authMiddleware_wellformed[OF Some w] requireRole_def
      by (auto simp add: reply_def split: if_splits)
  qed
qed

text \<open>
  C5, as stated, fails: the operations of the module and of the service answer a caller with no
  role and a caller with another role alike. At genesis the module's submitSalesHash returns the
  same result for an address without a record and for the admin; the service's addUser returns the
  same result for an unknown address and for the cashier; and the add-user route answers both
  with status 403.
\<close>

theorem C5_same_answer_counterexample:
  "userRoles genesis stranger = None
   \<and> map_option role (userRoles genesis defaultAdmin) = Some ''admin''
   \<and> submitSalesHash_mod genesis ''S1'' ''2024-01-01'' ''aa'' stranger 5
       = submitSalesHash_mod genesis ''S1'' ''2024-01-01'' ''aa'' defaultAdmin 5
   \<and> fst (submitSalesHash_mod genesis ''S1'' ''2024-01-01'' ''aa'' stranger 5)
       = response False ''Unauthorized: Cashier role required''
   \<and> mockUsers blockchainService stranger = None
   \<and> mockUsers blockchainService mockCashier = Some ''cashier''
   \<and> addUser blockchainService mockAuditor ''admin'' stranger
       = addUser blockchainService mockAuditor ''admin'' mockCashier
   \<and> status (fst (post_add_user backend (add_user_request stranger mockAuditor ''admin'') 5 6)) = 403
   \<and> status (fst (post_add_user backend (add_user_request mockCashier mockAuditor ''admin'') 5 6)) = 403"
proof -
  have g1: "guard (service backend) (add_user_request stranger mockAuditor ''admin'') ''admin''
              = Inl (reply 403 False ''Unauthorized: No valid role assigned'')"
    using stranger_wellformed stranger_no_role
    by (subst guard_wellformed[of _ stranger])
       (simp_all add: add_user_request_def request_def backend_def)
  have g2: "guard (service backend) (add_user_request mockCashier mockAuditor ''admin'') ''admin''
              = Inl (reply 403 False ''Unauthorized: admin role required'')"
    using wellformed_initial(3) mockUsers_initial(3)
    by (subst guard_wellformed[of _ mockCashier])
       (simp_all add: add_user_request_def request_def backend_def)
  have m: "userRoles genesis stranger = None
       \<and> map_option role (userRoles genesis defaultAdmin) = Some ''admin''"
    by (simp add: genesis_def init_def new_SecurePOSModule_def stranger_def defaultAdmin_def)
  then have h: "\<not> hasRoleInternal genesis stranger ''cashier''"
       "\<not> hasRoleInternal genesis defaultAdmin ''cashier''"
    by (auto simp add: hasRoleInternal_def split: option.splits)
  show ?thesis
    using m h stranger_no_role mockUsers_initial(3)
    by (simp add: submitSalesHash_mod_def addUser_def post_add_user_def g1 g2 reply_def)
qed

text \<open>
  C5, amended. In the HTTP layer every role-gated route tells the two failures apart by message,
  under the same status 403: for a well-formed address the guard answers ``Unauthorized: No valid
  role assigned'' when the address holds none of the three roles (no role is stored for it, or
  a role other than admin, auditor and cashier) and ``Unauthorized: <required> role required''
  when it holds another of the three roles, the two answers differ, and each route returns the
  guard's answer and leaves the state unchanged. A refusal of the guard has status 401 or 403,
  and 401 exactly for a missing, empty or malformed address: ``Wallet address required'' for a
  missing or empty one, ``Invalid wallet address format'' for one that is not 41 characters
  starting with lsk. The operations of the service and of the module answer every caller whose
  role is not the required one, with or without a role, by the same ``Unauthorized: <Role> role
  required''.
\<close>

theorem C5_failure_modes:
  "(required \<in> set [''admin'', ''auditor'', ''cashier''] \<and> x_wallet_address req = Some w
      \<and> w \<noteq> [] \<and> startsWith w ''lsk'' \<and> length w = 41
     \<longrightarrow>
       (mockUsers svc w = None
          \<longrightarrow> guard svc req required = Inl (reply 403 False ''Unauthorized: No valid role assigned''))
     \<and> (mockUsers svc w = Some r \<and> r \<in> set [''admin'', ''auditor'', ''cashier''] \<and> r \<noteq> required
          \<longrightarrow> guard svc req required
                = Inl (reply 403 False (''Unauthorized: '' @ required @ '' role required'')))
     \<and> (mockUsers svc w \<notin> {Some ''admin'', Some ''auditor'', Some ''cashier''}
          \<longrightarrow> guard svc req required = Inl (reply 403 False ''Unauthorized: No valid role assigned''))
     \<and> reply 403 False ''Unauthorized: No valid role assigned''
          \<noteq> reply 403 False (''Unauthorized: '' @ required @ '' role required''))
   \<and> (x_wallet_address req = None \<or> x_wallet_address req = Some []
        \<longrightarrow> guard svc req required = Inl (reply 401 False ''Wallet address required''))
   \<and> (x_wallet_address req = Some w \<and> w \<noteq> [] \<and> (\<not> startsWith w ''lsk'' \<or> length w \<noteq> 41)
        \<longrightarrow> guard svc req required = Inl (reply 401 False ''Invalid wallet address format''))
   \<and> (guard svc req required = Inl res \<and> status res = 401
        \<longrightarrow> x_wallet_address req = None
            \<or> (\<exists>a. x_wallet_address req = Some a
                   \<and> (a = [] \<or> \<not> startsWith a ''lsk'' \<or> length a \<noteq> 41)))
   \<and> (guard svc req required = Inl res \<longrightarrow> status res = 401 \<or> status res = 403)
   \<and> (guard (service app) req ''admin'' = Inl res
        \<longrightarrow> post_add_user app req now1 now2 = (res, app)
            \<and> delete_remove_user app req now1 now2 = (res, app))
   \<and> (guard (service app) req ''cashier'' = Inl res
        \<longrightarrow> post_submit_sales app req now1 now2 = (res, app))
   \<and> (guard (service app) req ''auditor'' = Inl res
        \<longrightarrow> post_verify app req now1 now2 = (res, app))
   \<and> (mockUsers svc s \<noteq> Some ''cashier''
        \<longrightarrow> submitSalesHash svc store day digest s now
              = (response False ''Unauthorized: Cashier role required'', svc))
   \<and> (mockUsers svc s \<noteq> Some ''admin''
        \<longrightarrow> addUser svc t r s = (response False ''Unauthorized: Admin role required'', svc)
            \<and> removeUser svc t s = (response False ''Unauthorized: Admin role required'', svc))
   \<and> (\<not> hasRoleInternal m s ''cashier''
        \<longrightarrow> submitSalesHash_mod m store day digest s now
              = (response False ''Unauthorized: Cashier role required'', m))
   \<and> (\<not> hasRoleInternal m s ''admin''
        \<longrightarrow> addUser_mod m t r s now = (response False ''Unauthorized: Admin role required'', m)
            \<and> removeUser_mod m t s = (response False ''Unauthorized: Admin role required'', m))"
proof (intro conjI impI)
  assume h: "required \<in> set [''admin'', ''auditor'', ''cashier''] \<and> x_wallet_address req = Some w
      \<and> w \<noteq> [] \<and> startsWith w ''lsk'' \<and> length w = 41"
  then have g: "guard svc req required =
     (if mockUsers svc w = Some required then Inr w
      else if mockUsers svc w \<in> {Some ''admin'', Some ''auditor'', Some ''cashier''}
      then Inl (reply 403 False (''Unauthorized: '' @ required @ '' role required''))
      else Inl (reply 403 False ''Unauthorized: No valid role assigned''))"
    by (intro guard_wellformed) simp_all
  { assume "mockUsers svc w = None"
    then show "guard svc req required = Inl (reply 403 False ''Unauthorized: No valid role assigned'')"
      by (simp add: g) }
  { assume "mockUsers svc w = Some r \<and> r \<in> set [''admin'', ''auditor'', ''cashier''] \<and> r \<noteq> required"
    then show "guard svc req required
                = Inl (reply 403 False (''Unauthorized: '' @ required @ '' role required''))"
      by (auto simp add: g) }
  { assume "mockUsers svc w \<notin> {Some ''admin'', Some ''auditor'', Some ''cashier''}"
    then show "guard svc req required = Inl (reply 403 False ''Unauthorized: No valid role assigned'')"
      using h by (auto simp add: g) }
  show "reply 403 False ''Unauthorized: No valid role assigned''
          \<noteq> reply 403 False (''Unauthorized: '' @ required @ '' role required'')"
    using h by (auto simp add: reply_def)
next
  assume "x_wallet_address req = None \<or> x_wallet_address req = Some []"
  then show "guard svc req required = Inl (reply 401 False ''Wallet address required'')"
    by (rule guard_missing)
next
  assume "x_wallet_address req = Some w \<and> w \<noteq> [] \<and> (\<not> startsWith w ''lsk'' \<or> length w \<noteq> 41)"
  then show "guard svc req required = Inl (reply 401 False ''Invalid wallet address format'')"
    by (intro guard_malformed[of req w]) simp_all
next
  assume "guard svc req required = Inl res \<and> status res = 401"
  then show "x_wallet_address req = None
            \<or> (\<exists>a. x_wallet_address req = Some a
                   \<and> (a = [] \<or> \<not> startsWith a ''lsk'' \<or> length a \<noteq> 41))"
    by (intro guard_401[of svc req required res]) simp_all
next
  assume "guard svc req required = Inl res"
  then show "status res = 401 \<or> status res = 403"
    using guard_Inl by blast
next
  assume "guard (service app) req ''admin'' = Inl res"
  then show "post_add_user app req now1 now2 = (res, app)"
    "delete_remove_user app req now1 now2 = (res, app)"
    by (simp_all add: post_add_user_def delete_remove_user_def)
next
  assume "guard (service app) req ''cashier'' = Inl res"
  then show "post_submit_sales app req now1 now2 = (res, app)"
    by (simp add: post_submit_sales_def)
next
  assume "guard (service app) req ''auditor'' = Inl res"
  then show "post_verify app req now1 now2 = (res, app)"
    by (simp add: post_verify_def)
next
  assume "mockUsers svc s \<noteq> Some ''cashier''"
  then show "submitSalesHash svc store day digest s now
              = (response False ''Unauthorized: Cashier role required'', svc)"
    by (simp add: submitSalesHash_def)
next
  assume h: "mockUsers svc s \<noteq> Some ''admin''"
  then show "addUser svc t r s = (response False ''Unauthorized: Admin role required'', svc)"
    by (simp add: addUser_def)
  from h show "removeUser svc t s = (response False ''Unauthorized: Admin role required'', svc)"
    by (simp add: removeUser_def)
next
  assume "\<not> hasRoleInternal m s ''cashier''"
  then show "submitSalesHash_mod m store day digest s now
              = (response False ''Unauthorized: Cashier role required'', m)"
    by (simp add: submitSalesHash_mod_def)
next
  assume h: "\<not> hasRoleInternal m s ''admin''"
  then show "addUser_mod m t r s now = (response False ''Unauthorized: Admin role required'', m)"
    by (simp add: addUser_mod_def)
  from h show "removeUser_mod m t s = (response False ''Unauthorized: Admin role required'', m)"
    by (simp add: removeUser_mod_def)
qed

theorem C5_failure_modes_witness:
  "post_submit_sales backend (request stranger) 5 6
     = (reply 403 False ''Unauthorized: No valid role assigned'', backend)
   \<and> post_submit_sales backend (request mockAuditor) 5 6
     = (reply 403 False ''Unauthorized: cashier role required'', backend)
   \<and> post_verify backend (request stranger) 5 6
     = (reply 403 False ''Unauthorized: No valid role assigned'', backend)
   \<and> post_verify backend (request mockCashier) 5 6
     = (reply 403 False ''Unauthorized: auditor role required'', backend)
   \<and> removeUser blockchainService mockCashier stranger
     = removeUser blockchainService mockCashier mockAuditor
   \<and> removeUser_mod genesis defaultAdmin stranger
     = (response False ''Unauthorized: Admin role required'', genesis)
   \<and> guard (snd (addUser blockchainService stranger ''manager'' defaultAdmin)) (request stranger)
        ''admin''
     = Inl (reply 403 False ''Unauthorized: No valid role assigned'')
   \<and> guard blockchainService (request []) ''admin''
     = Inl (reply 401 False ''Wallet address required'')
   \<and> guard blockchainService (request ''0x24cd35'') ''admin''
     = Inl (reply 401 False ''Invalid wallet address format'')"
proof -
  let ?svc = "snd (addUser blockchainService stranger ''manager'' defaultAdmin)"
  have mg: "mockUsers ?svc stranger = Some ''manager''"
    using mockUsers_initial(1) by (simp add: addUser_def)
  note f1 = C5_failure_modes[where svc = ?svc and req = "request stranger" and w = stranger
      and required = "''admin''"]
  note f2 = C5_failure_modes[where svc = blockchainService and req = "request []"
      and required = "''admin''"]
  note f3 = C5_failure_modes[where svc = blockchainService and req = "request ''0x24cd35''"
      and w = "''0x24cd35''" and required = "''admin''"]
  have h1: "guard ?svc (request stranger) ''admin''
     = Inl (reply 403 False ''Unauthorized: No valid role assigned'')"
    using f1 mg stranger_wellformed by (simp add: request_def)
  have h2: "guard blockchainService (request []) ''admin''
     = Inl (reply 401 False ''Wallet address required'')"
    using f2 by (simp add: request_def)
  have h3: "guard blockchainService (request ''0x24cd35'') ''admin''
     = Inl (reply 401 False ''Invalid wallet address format'')"
    using f3 by (simp add: request_def)
  have w: "x_wallet_address (request stranger) = Some stranger"
      "x_wallet_address (request mockAuditor) = Some mockAuditor"
      "x_wallet_address (request mockCashier) = Some mockCashier"
    by (simp_all add: request_def)
  have v: "''cashier'' \<in> set [''admin'', ''auditor'', ''cashier'']"
          "''auditor'' \<in> set [''admin'', ''auditor'', ''cashier'']"
          "''auditor'' \<noteq> ''cashier''" "''cashier'' \<noteq> ''auditor''"
    by simp_all
  have sb: "service backend = blockchainService" by (simp add: backend_def)
  note a = C5_failure_modes[where svc = blockchainService and app = backend and req = "request stranger"
      and w = stranger and required = "''cashier''"
      and res = "reply 403 False ''Unauthorized: No valid role assigned''"
      and ?now1.0 = 5 and ?now2.0 = 6]
  note a' = C5_failure_modes[where svc = blockchainService and app = backend and req = "request stranger"
      and w = stranger and required = "''auditor''"
      and res = "reply 403 False ''Unauthorized: No valid role assigned''"
      and ?now1.0 = 5 and ?now2.0 = 6]
  note b = C5_failure_modes[where svc = blockchainService and app = backend
      and req = "request mockAuditor" and w = mockAuditor and required = "''cashier''"
      and r = "''auditor''" and res = "reply 403 False ''Unauthorized: cashier role required''"
      and ?now1.0 = 5 and ?now2.0 = 6]
  note c = C5_failure_modes[where svc = blockchainService and app = backend
      and req = "request mockCashier" and w = mockCashier and required = "''auditor''"
      and r = "''cashier''" and res = "reply 403 False ''Unauthorized: auditor role required''"
      and ?now1.0 = 5 and ?now2.0 = 6]
  note d = C5_failure_modes[where svc = blockchainService and s = stranger and t = mockCashier
      and m = genesis]
  note d' = C5_failure_modes[where svc = blockchainService and s = mockAuditor and t = mockCashier
      and m = genesis]
  note e = C5_failure_modes[where m = genesis and s = stranger and t = defaultAdmin]
  have n: "\<not> hasRoleInternal genesis stranger ''admin''"
    by (simp add: genesis_def init_def new_SecurePOSModule_def hasRoleInternal_def stranger_def
          defaultAdmin_def)
  have g1: "guard (service backend) (request stranger) ''cashier''
              = Inl (reply 403 False ''Unauthorized: No valid role assigned'')"
    using a w v stranger_wellformed stranger_no_role sb by simp
  have g2: "guard (service backend) (request stranger) ''auditor''
              = Inl (reply 403 False ''Unauthorized: No valid role assigned'')"
    using a' w v stranger_wellformed stranger_no_role sb by simp
  have g3: "guard (service backend) (request mockAuditor) ''cashier''
              = Inl (reply 403 False ''Unauthorized: cashier role required'')"
    using b w v wellformed_initial(2) mockUsers_initial(2) sb by simp
  have g4: "guard (service backend) (request mockCashier) ''auditor''
              = Inl (reply 403 False ''Unauthorized: auditor role required'')"
    using c w v wellformed_initial(3) mockUsers_initial(3) sb by simp
  have s: "mockUsers blockchainService stranger \<noteq> Some ''admin''"
      "mockUsers blockchainService mockAuditor \<noteq> Some ''admin''"
    using stranger_no_role mockUsers_initial(2) by simp_all
  show ?thesis
    using a a' b c d d' e g1 g2 g3 g4 n s h1 h2 h3 by simp
qed

subsection \<open>The admin set of the module\<close>

lemma genesis_fields:
  "userRoles genesis =
     [defaultAdmin \<mapsto> \<lparr>address = defaultAdmin, role = ''admin'', addedBy = defaultAdmin,
                        timestamp_ur = 0\<rparr>]"
  "adminAddresses genesis = {defaultAdmin}"
  "salesRecords genesis = Map.empty"
  by (simp_all add: genesis_def init_def new_SecurePOSModule_def defaultAdmin_def)

lemma demoted_fields:
  "userRoles demoted =
     [defaultAdmin \<mapsto> \<lparr>address = defaultAdmin, role = ''admin'', addedBy = defaultAdmin,
                        timestamp_ur = 0\<rparr>,
      mockAuditor \<mapsto> \<lparr>address = mockAuditor, role = ''auditor'', addedBy = defaultAdmin,
                       timestamp_ur = 2\<rparr>]"
  "adminAddresses demoted = {defaultAdmin, mockAuditor}"
proof -
  have a: "hasRoleInternal genesis defaultAdmin ''admin''"
    by (simp add: hasRoleInternal_def genesis_fields)
  let ?m1 = "genesis\<lparr>userRoles := (userRoles genesis)(mockAuditor \<mapsto>
                \<lparr>address = mockAuditor, role = ''admin'', addedBy = defaultAdmin,
                 timestamp_ur = 1\<rparr>),
              adminAddresses := insert mockAuditor (adminAddresses genesis)\<rparr>"
  have s1: "snd (addUser_mod genesis mockAuditor ''admin'' defaultAdmin 1) = ?m1"
    using a by (simp add: addUser_mod_def Let_def)
  have a1: "hasRoleInternal ?m1 defaultAdmin ''admin''"
    by (simp add: hasRoleInternal_def genesis_fields defaultAdmin_def mockAuditor_def)
  have s2: "snd (addUser_mod ?m1 mockAuditor ''auditor'' defaultAdmin 2)
              = ?m1\<lparr>userRoles := (userRoles ?m1)(mockAuditor \<mapsto>
                  \<lparr>address = mockAuditor, role = ''auditor'', addedBy = defaultAdmin,
                   timestamp_ur = 2\<rparr>)\<rparr>"
    using a1 by (simp add: addUser_mod_def Let_def)
  have d: "demoted = ?m1\<lparr>userRoles := (userRoles ?m1)(mockAuditor \<mapsto>
                  \<lparr>address = mockAuditor, role = ''auditor'', addedBy = defaultAdmin,
                   timestamp_ur = 2\<rparr>)\<rparr>"
    unfolding demoted_def module_run_def
    by (simp only: foldl.simps module_step.simps s1 s2)
  show "userRoles demoted =
     [defaultAdmin \<mapsto> \<lparr>address = defaultAdmin, role = ''admin'', addedBy = defaultAdmin,
                        timestamp_ur = 0\<rparr>,
      mockAuditor \<mapsto> \<lparr>address = mockAuditor, role = ''auditor'', addedBy = defaultAdmin,
                       timestamp_ur = 2\<rparr>]"
    by (simp add: d genesis_fields)
  show "adminAddresses demoted = {defaultAdmin, mockAuditor}"
    by (auto simp add: d genesis_fields)
qed

lemma demoted_admins: "{a. hasRoleInternal demoted a ''admin''} = {defaultAdmin}"
  using addresses_distinct
  by (auto simp add: hasRoleInternal_def demoted_fields split: option.splits if_splits)

text \<open>
  C10. In the module, an addUser that grants auditor or cashier replaces the target's record
  and leaves adminAddresses as it was, so a target that was in the set stays in it although its
  role is no longer admin. The last-admin guard of removeUser looks only at the size of that
  set: for an admin removing itself it fires exactly when the set has one element. After the
  admin has made a second address admin and then auditor, the set has two elements while one
  address holds the admin role, the set differs from the set of addresses whose role is admin,
  and the self-removal of that one admin goes through.
\<close>

theorem C10_admin_set_not_maintained:
  "(hasRoleInternal m s ''admin'' \<and> r \<in> set [''auditor'', ''cashier'']
      \<longrightarrow>
      (let m' = snd (addUser_mod m t r s now)
       in success (fst (addUser_mod m t r s now))
          \<and> userRoles m' t = Some \<lparr>address = t, role = r, addedBy = s, timestamp_ur = now\<rparr>
          \<and> adminAddresses m' = adminAddresses m
          \<and> (t \<in> adminAddresses m
               \<longrightarrow> t \<in> adminAddresses m' \<and> \<not> hasRoleInternal m' t ''admin'')))
   \<and> (hasRoleInternal m s ''admin''
      \<longrightarrow> (removeUser_mod m s s = (response False ''Cannot remove the last admin'', m))
            = (card (adminAddresses m) = 1))
   \<and> adminAddresses demoted = {defaultAdmin, mockAuditor}
   \<and> {a. hasRoleInternal demoted a ''admin''} = {defaultAdmin}
   \<and> adminAddresses demoted \<noteq> {a. hasRoleInternal demoted a ''admin''}
   \<and> card (adminAddresses demoted) = 2
   \<and> fst (removeUser_mod demoted defaultAdmin defaultAdmin)
       = response True ''User removed successfully''"
proof (intro conjI impI)
  assume h: "hasRoleInternal m s ''admin'' \<and> r \<in> set [''auditor'', ''cashier'']"
  then have r: "r \<in> set [''admin'', ''auditor'', ''cashier'']" "r \<noteq> ''admin''" by auto
  have e: "addUser_mod m t r s now =
      (response True (''User added to '' @ r @ '' role successfully''),
       m\<lparr>userRoles := (userRoles m)(t \<mapsto>
           \<lparr>address = t, role = r, addedBy = s, timestamp_ur = now\<rparr>)\<rparr>)"
    using h r by (simp add: addUser_mod_def Let_def)
  show "let m' = snd (addUser_mod m t r s now)
       in success (fst (addUser_mod m t r s now))
          \<and> userRoles m' t = Some \<lparr>address = t, role = r, addedBy = s, timestamp_ur = now\<rparr>
          \<and> adminAddresses m' = adminAddresses m
          \<and> (t \<in> adminAddresses m
               \<longrightarrow> t \<in> adminAddresses m' \<and> \<not> hasRoleInternal m' t ''admin'')"
    unfolding Let_def e using r by (simp add: response_def hasRoleInternal_def)
next
  assume h: "hasRoleInternal m s ''admin''"
  then obtain u where u: "userRoles m s = Some u" "role u = ''admin''"
    by (auto simp add: hasRoleInternal_def split: option.splits)
  show "(removeUser_mod m s s = (response False ''Cannot remove the last admin'', m))
            = (card (adminAddresses m) = 1)"
    using h u by (simp add: removeUser_mod_def Let_def response_def)
next
  show "adminAddresses demoted = {defaultAdmin, mockAuditor}" by (rule demoted_fields)
  show "{a. hasRoleInternal demoted a ''admin''} = {defaultAdmin}" by (rule demoted_admins)
  show "adminAddresses demoted \<noteq> {a. hasRoleInternal demoted a ''admin''}"
    using addresses_distinct by (simp add: demoted_fields demoted_admins)
  show c: "card (adminAddresses demoted) = 2"
    using addresses_distinct by (simp add: demoted_fields)
  have "hasRoleInternal demoted defaultAdmin ''admin''"
    using demoted_admins by blast
  then show "fst (removeUser_mod demoted defaultAdmin defaultAdmin)
       = response True ''User removed successfully''"
    using c addresses_distinct by (simp add: removeUser_mod_def Let_def demoted_fields)
qed

theorem C10_admin_set_not_maintained_witness:
  "(let m' = snd (addUser_mod
                    (snd (addUser_mod genesis mockAuditor ''admin'' defaultAdmin 1))
                    mockAuditor ''auditor'' defaultAdmin 2)
    in mockAuditor \<in> adminAddresses m' \<and> \<not> hasRoleInternal m' mockAuditor ''admin''
       \<and> map_option role (userRoles m' mockAuditor) = Some ''auditor'')
   \<and> removeUser_mod genesis defaultAdmin defaultAdmin
       = (response False ''Cannot remove the last admin'', genesis)
   \<and> removeUser_mod demoted defaultAdmin defaultAdmin
       \<noteq> (response False ''Cannot remove the last admin'', demoted)"
proof -
  let ?m1 = "snd (addUser_mod genesis mockAuditor ''admin'' defaultAdmin 1)"
  have a: "hasRoleInternal genesis defaultAdmin ''admin''"
    by (simp add: hasRoleInternal_def genesis_fields)
  have m1: "?m1 = genesis\<lparr>userRoles := (userRoles genesis)(mockAuditor \<mapsto>
                \<lparr>address = mockAuditor, role = ''admin'', addedBy = defaultAdmin,
                 timestamp_ur = 1\<rparr>),
              adminAddresses := insert mockAuditor (adminAddresses genesis)\<rparr>"
    using a by (simp add: addUser_mod_def Let_def)
  have a1: "hasRoleInternal ?m1 defaultAdmin ''admin'' \<and> ''auditor'' \<in> set [''auditor'', ''cashier'']"
    unfolding m1 using addresses_distinct by (simp add: hasRoleInternal_def genesis_fields)
  have t: "mockAuditor \<in> adminAddresses ?m1" unfolding m1 by simp
  have d: "hasRoleInternal demoted defaultAdmin ''admin''" using demoted_admins by blast
  have c: "card (adminAddresses genesis) = 1" "card (adminAddresses demoted) \<noteq> 1"
    using addresses_distinct by (simp_all add: genesis_fields demoted_fields)
  note grant = C10_admin_set_not_maintained[where m = ?m1 and s = defaultAdmin and r = "''auditor''"
      and t = mockAuditor and now = 2]
  note last = C10_admin_set_not_maintained[where m = genesis and s = defaultAdmin]
  note counted = C10_admin_set_not_maintained[where m = demoted and s = defaultAdmin]
  have g: "mockAuditor \<in> adminAddresses (snd (addUser_mod ?m1 mockAuditor ''auditor'' defaultAdmin 2))
       \<and> \<not> hasRoleInternal (snd (addUser_mod ?m1 mockAuditor ''auditor'' defaultAdmin 2))
             mockAuditor ''admin''
       \<and> userRoles (snd (addUser_mod ?m1 mockAuditor ''auditor'' defaultAdmin 2)) mockAuditor
           = Some \<lparr>address = mockAuditor, role = ''auditor'', addedBy = defaultAdmin,
                   timestamp_ur = 2\<rparr>"
    using grant a1 t unfolding Let_def by blast
  show ?thesis
    unfolding Let_def using g last counted a d c by simp
qed

subsection \<open>The last admin\<close>

text \<open>
  C1 does not hold of the code. In the mock service, whose removeUser has no last-admin check,
  the one admin of the initial state removes itself, through the service method and through the
  remove-user route alike, and no address holds the admin role afterwards. In the module, once
  adminAddresses counts a demoted admin, the one remaining admin removes itself; and at genesis
  the one admin can grant itself the cashier role, after which no address is admin.
\<close>

theorem C1_last_admin_removed:
  "{a. mockUsers blockchainService a = Some ''admin''} = {defaultAdmin}
   \<and> removeUser blockchainService defaultAdmin defaultAdmin
       = (response True ''User removed successfully'',
          blockchainService\<lparr>mockUsers := (mockUsers blockchainService)(defaultAdmin := None)\<rparr>)
   \<and> {a. mockUsers (snd (removeUser blockchainService defaultAdmin defaultAdmin)) a = Some ''admin''}
       = {}
   \<and> fst (delete_remove_user backend (remove_user_request defaultAdmin defaultAdmin) 1 2)
       = reply 200 True ''User removed successfully''
   \<and> {a. mockUsers (service (snd (delete_remove_user backend
            (remove_user_request defaultAdmin defaultAdmin) 1 2))) a = Some ''admin''} = {}
   \<and> {a. hasRoleInternal demoted a ''admin''} = {defaultAdmin}
   \<and> fst (removeUser_mod demoted defaultAdmin defaultAdmin)
       = response True ''User removed successfully''
   \<and> {a. hasRoleInternal (snd (removeUser_mod demoted defaultAdmin defaultAdmin)) a ''admin''} = {}
   \<and> {a. hasRoleInternal genesis a ''admin''} = {defaultAdmin}
   \<and> fst (addUser_mod genesis defaultAdmin ''cashier'' defaultAdmin 1)
       = response True ''User added to cashier role successfully''
   \<and> {a. hasRoleInternal (snd (addUser_mod genesis defaultAdmin ''cashier'' defaultAdmin 1)) a
            ''admin''} = {}"
proof (intro conjI)
  show "{a. mockUsers blockchainService a = Some ''admin''} = {defaultAdmin}"
    by (auto simp add: blockchainService_def defaultAdmin_def split: if_splits)
  show r: "removeUser blockchainService defaultAdmin defaultAdmin
       = (response True ''User removed successfully'',
          blockchainService\<lparr>mockUsers := (mockUsers blockchainService)(defaultAdmin := None)\<rparr>)"
    by (simp add: removeUser_def mockUsers_initial)
  show "{a. mockUsers (snd (removeUser blockchainService defaultAdmin defaultAdmin)) a = Some ''admin''}
       = {}"
    unfolding r by (auto simp add: blockchainService_def defaultAdmin_def split: if_splits)
  have g: "guard (service backend) (remove_user_request defaultAdmin defaultAdmin) ''admin''
             = Inr defaultAdmin"
    by (rule guard_backend_admin) (simp add: remove_user_request_def request_def)
  have e: "delete_remove_user backend (remove_user_request defaultAdmin defaultAdmin) 1 2
      = (reply 200 True ''User removed successfully'',
         writeJson (backend\<lparr>service := (service backend)\<lparr>mockUsers := (mockUsers (service backend))(defaultAdmin := None)\<rparr>\<rparr>)
                  (path_join [storage_path backend, ''admin-logs'', admin_log_name 2])
                  (AdminLogFile \<lparr>action = ''remove_user'', adminAddress = defaultAdmin,
                    targetAddress = defaultAdmin, role_adm = None, timestamp_adm = 1\<rparr>))"
    using wellformed_initial(1) mockUsers_initial(1)
    by (subst delete_remove_user_admin[OF g])
       (simp add: remove_user_request_def request_def backend_def)
  show "fst (delete_remove_user backend (remove_user_request defaultAdmin defaultAdmin) 1 2)
       = reply 200 True ''User removed successfully''"
    unfolding e by simp
  show "{a. mockUsers (service (snd (delete_remove_user backend
            (remove_user_request defaultAdmin defaultAdmin) 1 2))) a = Some ''admin''} = {}"
    unfolding e by (auto simp add: backend_def blockchainService_def defaultAdmin_def split: if_splits)
  show "{a. hasRoleInternal demoted a ''admin''} = {defaultAdmin}" by (rule demoted_admins)
  have d: "hasRoleInternal demoted defaultAdmin ''admin''" using demoted_admins by blast
  have c: "card (adminAddresses demoted) = 2"
    using addresses_distinct by (simp add: demoted_fields)
  have rm: "removeUser_mod demoted defaultAdmin defaultAdmin
      = (response True ''User removed successfully'',
         demoted\<lparr>userRoles := (userRoles demoted)(defaultAdmin := None),
                 adminAddresses := adminAddresses demoted - {defaultAdmin}\<rparr>)"
    using d c addresses_distinct by (simp add: removeUser_mod_def Let_def demoted_fields)
  show "fst (removeUser_mod demoted defaultAdmin defaultAdmin)
       = response True ''User removed successfully''"
    by (simp add: rm)
  show "{a. hasRoleInternal (snd (removeUser_mod demoted defaultAdmin defaultAdmin)) a ''admin''} = {}"
    using addresses_distinct
    unfolding rm
    by (auto simp add: hasRoleInternal_def demoted_fields split: option.splits if_splits)
  show "{a. hasRoleInternal genesis a ''admin''} = {defaultAdmin}"
    by (auto simp add: hasRoleInternal_def genesis_fields split: option.splits if_splits)
  have a: "hasRoleInternal genesis defaultAdmin ''admin''"
    by (simp add: hasRoleInternal_def genesis_fields)
  have ad: "addUser_mod genesis defaultAdmin ''cashier'' defaultAdmin 1
      = (response True ''User added to cashier role successfully'',
         genesis\<lparr>userRoles := (userRoles genesis)(defaultAdmin \<mapsto>
           \<lparr>address = defaultAdmin, role = ''cashier'', addedBy = defaultAdmin,
            timestamp_ur = 1\<rparr>)\<rparr>)"
    using a by (simp add: addUser_mod_def Let_def)
  show "fst (addUser_mod genesis defaultAdmin ''cashier'' defaultAdmin 1)
       = response True ''User added to cashier role successfully''"
    unfolding ad by simp
  show "{a. hasRoleInternal (snd (addUser_mod genesis defaultAdmin ''cashier'' defaultAdmin 1)) a
            ''admin''} = {}"
    unfolding ad
    by (auto simp add: hasRoleInternal_def genesis_fields split: option.splits if_splits)
qed

end
